theory Spec2Isabelle
  imports Complex_Main
begin

section \<open>Python values and the built-ins the gateway uses\<close>

text \<open>
  The gateway (\<^verbatim>\<open>src/server.py\<close>) is a set of FastAPI handlers around one broker client.
  Its data are JSON documents decoded to Python objects, so the embedding starts with those.

  Conventions of the embedding:
  \<^item> a Python \<^verbatim>\<open>str\<close> is a \<open>string\<close>; a \<open>char\<close> stands for the code point of the same number,
    so the model covers text whose code points are below 256;
  \<^item> a Python \<^verbatim>\<open>int\<close> is an \<open>int\<close>;
  \<^item> a Python \<^verbatim>\<open>float\<close> is a \<open>pyfloat\<close>: a finite binary number given by its sign, its
    significand and its exponent, an infinity given by its sign, or a NaN. The operations
    that round or print (\<^verbatim>\<open>float(s)\<close>, \<^verbatim>\<open>float(n)\<close>, subtraction, \<^verbatim>\<open>repr\<close>) and the truth test
    are not computed here: they are the fields of \<open>float_ops\<close>, and every function that
    needs one takes them as the argument \<open>F\<close>;
  \<^item> a Python \<^verbatim>\<open>dict\<close> with string keys is an association list in insertion order, read with
    \<open>map_of\<close>;
  \<^item> a raised exception is the \<open>Inl\<close> of a sum; only subclasses of \<^verbatim>\<open>Exception\<close> are modelled.
\<close>

datatype pyfloat =
    PyFloat bool nat int
  | PyInf bool
  | PyNaN

text \<open>
  \<open>PyFloat s m e\<close> is the number \<open>(-1)\<^sup>s \<sqdot> m \<sqdot> 2\<^sup>e\<close>; \<^verbatim>\<open>math.isfinite\<close> and the value of a
  finite float as a real number. Every binary64 number is a \<open>pyfloat\<close>; the type does not
  bound the significand or the exponent.
\<close>

fun float_finite :: "pyfloat \<Rightarrow> bool" where
  "float_finite (PyFloat s m e) = True"
| "float_finite x = False"

fun float_val :: "pyfloat \<Rightarrow> real" where
  "float_val (PyFloat s m e) =
     (if s then - 1 else 1) * real m * (if 0 \<le> e then 2 ^ nat e else 1 / 2 ^ nat (- e))"
| "float_val x = 0"

text \<open>
  \<open>rounds r x\<close>: the float \<open>x\<close> is finite and within the relative error \<open>2\<^sup>-\<^sup>5\<^sup>3\<close> of the real
  number \<open>r\<close>, which is what binary64 rounding to nearest gives for an \<open>r\<close> in the normal
  range.
\<close>

definition rounds :: "real \<Rightarrow> pyfloat \<Rightarrow> bool" where
  "rounds r x = (float_finite x \<and> \<bar>float_val x - r\<bar> \<le> \<bar>r\<bar> / 2 ^ 53)"

datatype json =
    JNull
  | JBool bool
  | JInt int
  | JFloat pyfloat
  | JStr string
  | JList "json list"
  | JObj "(string \<times> json) list"

type_synonym dict = "(string \<times> json) list"

text \<open>
  Exceptions. \<open>V20Error code msg\<close> is the broker library's error (its \<^verbatim>\<open>__init__\<close> passes
  \<^verbatim>\<open>msg\<close> to \<^verbatim>\<open>Exception\<close>, so \<^verbatim>\<open>str(e)\<close> is \<^verbatim>\<open>msg\<close>); \<open>HTTPException status detail\<close> is
  FastAPI's (Starlette renders it as \<^verbatim>\<open>f"{status_code}: {detail}"\<close>); \<open>PyError cls msg\<close> is any
  other exception, given by its class name and its \<^verbatim>\<open>str(e)\<close>. The texts of the interpreter's
  own errors are those of CPython 3.12.
\<close>

datatype exn =
    V20Error int string
  | HTTPException int string
  | PyError string string

record float_ops =
  float_repr :: "pyfloat \<Rightarrow> string"
  float_bool :: "pyfloat \<Rightarrow> bool"
  float_of_str :: "string \<Rightarrow> pyfloat option"
  float_of_int :: "int \<Rightarrow> pyfloat option"
  float_sub :: "pyfloat \<Rightarrow> pyfloat \<Rightarrow> pyfloat"

subsection \<open>\<^verbatim>\<open>str\<close> and \<^verbatim>\<open>repr\<close>\<close>

definition digit_char :: "nat \<Rightarrow> char" where
  "digit_char n = ''0123456789'' ! n"

fun dec_digits :: "nat \<Rightarrow> string" where
  "dec_digits n = (if n < 10 then [digit_char n] else dec_digits (n div 10) @ [digit_char (n mod 10)])"

declare dec_digits.simps [simp del]

text \<open>\<^verbatim>\<open>str(n)\<close> for an int.\<close>

definition str_int :: "int \<Rightarrow> string" where
  "str_int i = (if i < 0 then CHR ''-'' # dec_digits (nat (- i)) else dec_digits (nat i))"

definition hex_char :: "nat \<Rightarrow> char" where
  "hex_char n = ''0123456789abcdef'' ! n"

text \<open>
  \<^verbatim>\<open>repr(s)\<close> for a str: single quotes unless the text has a single quote and no double
  quote; the quote and the backslash are escaped, tab, newline and carriage return have
  their letters, and every other non-printable code point is \<^verbatim>\<open>\xNN\<close>.
\<close>

definition printable :: "char \<Rightarrow> bool" where
  "printable c = (let n = (of_char c :: nat) in
     (32 \<le> n \<and> n < 127) \<or> (161 \<le> n \<and> n \<noteq> 173))"

definition repr_char :: "char \<Rightarrow> char \<Rightarrow> string" where
  "repr_char q c = (let n = (of_char c :: nat) in
     if c = q \<or> n = 92 then [CHR 0x5C, c]
     else if n = 9 then [CHR 0x5C, CHR ''t'']
     else if n = 10 then [CHR 0x5C, CHR ''n'']
     else if n = 13 then [CHR 0x5C, CHR ''r'']
     else if printable c then [c]
     else [CHR 0x5C, CHR ''x'', hex_char (n div 16), hex_char (n mod 16)])"

definition repr_str :: "string \<Rightarrow> string" where
  "repr_str s = (let q = (if CHR 0x27 \<in> set s \<and> CHR 0x22 \<notin> set s
                          then CHR 0x22 else CHR 0x27)
                 in q # concat (map (repr_char q) s) @ [q])"

text \<open>\<^verbatim>\<open>", ".join(xs)\<close>.\<close>

fun join :: "string \<Rightarrow> string list \<Rightarrow> string" where
  "join sep [] = []"
| "join sep [x] = x"
| "join sep (x # y # ys) = x @ sep @ join sep (y # ys)"

text \<open>\<^verbatim>\<open>repr(v)\<close> for a decoded JSON value.\<close>

fun py_repr :: "float_ops \<Rightarrow> json \<Rightarrow> string" where
  "py_repr F JNull = ''None''"
| "py_repr F (JBool b) = (if b then ''True'' else ''False'')"
| "py_repr F (JInt i) = str_int i"
| "py_repr F (JFloat x) = float_repr F x"
| "py_repr F (JStr s) = repr_str s"
| "py_repr F (JList xs) = ''['' @ join '', '' (map (py_repr F) xs) @ '']''"
| "py_repr F (JObj kvs) =
     ''{'' @ join '', '' (map (\<lambda>kv. repr_str (fst kv) @ '': '' @ py_repr F (snd kv)) kvs) @ ''}''"

text \<open>\<^verbatim>\<open>str(v)\<close>: the text itself for a str, the \<^verbatim>\<open>repr\<close> for everything else.\<close>

definition py_str :: "float_ops \<Rightarrow> json \<Rightarrow> string" where
  "py_str F v = (case v of JStr s \<Rightarrow> s | _ \<Rightarrow> py_repr F v)"

text \<open>Truthiness, as \<^verbatim>\<open>if v:\<close> and \<^verbatim>\<open>not v\<close> read it.\<close>

fun py_bool :: "float_ops \<Rightarrow> json \<Rightarrow> bool" where
  "py_bool F JNull = False"
| "py_bool F (JBool b) = b"
| "py_bool F (JInt i) = (i \<noteq> 0)"
| "py_bool F (JFloat x) = float_bool F x"
| "py_bool F (JStr s) = (s \<noteq> [])"
| "py_bool F (JList xs) = (xs \<noteq> [])"
| "py_bool F (JObj kvs) = (kvs \<noteq> [])"

fun type_name :: "json \<Rightarrow> string" where
  "type_name JNull = ''NoneType''"
| "type_name (JBool b) = ''bool''"
| "type_name (JInt i) = ''int''"
| "type_name (JFloat x) = ''float''"
| "type_name (JStr s) = ''str''"
| "type_name (JList xs) = ''list''"
| "type_name (JObj kvs) = ''dict''"

subsection \<open>\<^verbatim>\<open>int(s)\<close> on a str\<close>

text \<open>
  \<^verbatim>\<open>int(s)\<close> in base 10: white space on both sides, an optional sign, then decimal digits
  with single underscores allowed between digits. White space is what the C level strips
  (tab to carriage return, space) together with the non-ASCII spaces that are first turned
  into a space (code points 133 and 160 below 256). More than 4300 digits is refused
  (\<^verbatim>\<open>sys.int_max_str_digits\<close>, its default). Both failures are a \<^verbatim>\<open>ValueError\<close>.
\<close>

definition int_space :: "char \<Rightarrow> bool" where
  "int_space c = (let n = (of_char c :: nat) in
     (9 \<le> n \<and> n \<le> 13) \<or> n = 32 \<or> n = 133 \<or> n = 160)"

definition is_digit :: "char \<Rightarrow> bool" where
  "is_digit c = (let n = (of_char c :: nat) in 48 \<le> n \<and> n \<le> 57)"

definition digit_val :: "char \<Rightarrow> nat" where
  "digit_val c = of_char c - 48"

definition digits_val :: "string \<Rightarrow> nat" where
  "digits_val ds = foldl (\<lambda>a c. 10 * a + digit_val c) 0 ds"

fun double_underscore :: "string \<Rightarrow> bool" where
  "double_underscore (a # b # cs) =
     ((a = CHR ''_'' \<and> b = CHR ''_'') \<or> double_underscore (b # cs))"
| "double_underscore cs = False"

definition int_max_str_digits :: nat where
  "int_max_str_digits = 4300"

definition invalid_literal :: "string \<Rightarrow> exn" where
  "invalid_literal s =
     PyError ''ValueError'' (''invalid literal for int() with base 10: '' @ take 200 (repr_str s))"

definition exceeds_limit :: "nat \<Rightarrow> exn" where
  "exceeds_limit n =
     PyError ''ValueError''
       (''Exceeds the limit (4300 digits) for integer string conversion: value has ''
        @ str_int (int n) @ '' digits; use sys.set_int_max_str_digits() to increase the limit'')"

text \<open>The syntax check: the sign and the digits of a well-formed literal.\<close>

definition int_literal :: "string \<Rightarrow> (bool \<times> string) option" where
  "int_literal s =
     (let t = dropWhile int_space s;
          neg = (t \<noteq> [] \<and> hd t = CHR ''-'');
          u = (if t \<noteq> [] \<and> (hd t = CHR ''+'' \<or> hd t = CHR ''-'') then tl t else t);
          body = takeWhile (\<lambda>c. is_digit c \<or> c = CHR ''_'') u;
          rest = dropWhile (\<lambda>c. is_digit c \<or> c = CHR ''_'') u
      in if body = [] \<or> hd body = CHR ''_'' \<or> double_underscore body \<or> last body = CHR ''_''
            \<or> dropWhile int_space rest \<noteq> []
         then None
         else Some (neg, filter is_digit body))"

definition py_int :: "string \<Rightarrow> exn + int" where
  "py_int s =
     (case int_literal s of
        None \<Rightarrow> Inl (invalid_literal s)
      | Some (neg, ds) \<Rightarrow>
          if int_max_str_digits < length ds then Inl (exceeds_limit (length ds))
          else Inr ((if neg then - 1 else 1) * int (digits_val ds)))"

subsection \<open>Subscripts, \<^verbatim>\<open>.get\<close>, \<^verbatim>\<open>len\<close> and \<^verbatim>\<open>float\<close>\<close>

definition bind_exn :: "exn + 'a \<Rightarrow> ('a \<Rightarrow> exn + 'b) \<Rightarrow> exn + 'b" where
  "bind_exn x f = (case x of Inl e \<Rightarrow> Inl e | Inr v \<Rightarrow> f v)"

definition not_subscriptable :: "json \<Rightarrow> exn" where
  "not_subscriptable v =
     PyError ''TypeError'' ([CHR 0x27] @ type_name v @ [CHR 0x27]
                            @ '' object is not subscriptable'')"

text \<open>\<^verbatim>\<open>v[key]\<close> with a str key.\<close>

fun py_getitem :: "json \<Rightarrow> string \<Rightarrow> exn + json" where
  "py_getitem (JObj kvs) k =
     (case map_of kvs k of None \<Rightarrow> Inl (PyError ''KeyError'' (repr_str k)) | Some v \<Rightarrow> Inr v)"
| "py_getitem (JList xs) k =
     Inl (PyError ''TypeError'' ''list indices must be integers or slices, not str'')"
| "py_getitem (JStr s) k =
     Inl (PyError ''TypeError''
            (''string indices must be integers, not '' @ [CHR 0x27] @ ''str''
             @ [CHR 0x27]))"
| "py_getitem v k = Inl (not_subscriptable v)"

text \<open>\<^verbatim>\<open>v[0]\<close>.\<close>

fun py_index0 :: "json \<Rightarrow> exn + json" where
  "py_index0 (JList xs) =
     (case xs of [] \<Rightarrow> Inl (PyError ''IndexError'' ''list index out of range'') | x # _ \<Rightarrow> Inr x)"
| "py_index0 (JStr s) =
     (case s of [] \<Rightarrow> Inl (PyError ''IndexError'' ''string index out of range'')
      | c # _ \<Rightarrow> Inr (JStr [c]))"
| "py_index0 (JObj kvs) = Inl (PyError ''KeyError'' ''0'')"
| "py_index0 v = Inl (not_subscriptable v)"

text \<open>\<^verbatim>\<open>v.get(key, default)\<close>: a method of dicts only.\<close>

fun py_get :: "json \<Rightarrow> string \<Rightarrow> json \<Rightarrow> exn + json" where
  "py_get (JObj kvs) k d = Inr (case map_of kvs k of None \<Rightarrow> d | Some v \<Rightarrow> v)"
| "py_get v k d =
     Inl (PyError ''AttributeError''
            ([CHR 0x27] @ type_name v @ [CHR 0x27]
             @ '' object has no attribute '' @ [CHR 0x27] @ ''get''
             @ [CHR 0x27]))"

fun py_len :: "json \<Rightarrow> exn + int" where
  "py_len (JList xs) = Inr (int (length xs))"
| "py_len (JStr s) = Inr (int (length s))"
| "py_len (JObj kvs) = Inr (int (length kvs))"
| "py_len v =
     Inl (PyError ''TypeError''
            (''object of type '' @ [CHR 0x27] @ type_name v @ [CHR 0x27]
             @ '' has no len()''))"

definition float_of_int_exn :: "float_ops \<Rightarrow> int \<Rightarrow> exn + pyfloat" where
  "float_of_int_exn F i =
     (case float_of_int F i of
        None \<Rightarrow> Inl (PyError ''OverflowError'' ''int too large to convert to float'')
      | Some x \<Rightarrow> Inr x)"

text \<open>\<^verbatim>\<open>float(v)\<close>.\<close>

fun py_float :: "float_ops \<Rightarrow> json \<Rightarrow> exn + pyfloat" where
  "py_float F (JFloat x) = Inr x"
| "py_float F (JInt i) = float_of_int_exn F i"
| "py_float F (JBool b) = float_of_int_exn F (if b then 1 else 0)"
| "py_float F (JStr s) =
     (case float_of_str F s of
        None \<Rightarrow> Inl (PyError ''ValueError'' (''could not convert string to float: '' @ repr_str s))
      | Some x \<Rightarrow> Inr x)"
| "py_float F v =
     Inl (PyError ''TypeError''
            (''float() argument must be a string or a real number, not ''
             @ [CHR 0x27] @ type_name v @ [CHR 0x27]))"

text \<open>\<^verbatim>\<open>str(e)\<close> for an exception.\<close>

fun str_exn :: "exn \<Rightarrow> string" where
  "str_exn (V20Error code msg) = msg"
| "str_exn (HTTPException status detail) = str_int status @ '': '' @ detail"
| "str_exn (PyError cls msg) = msg"

section \<open>The broker client and the handlers\<close>

text \<open>
  The requests the handlers build, one constructor per endpoint class of the broker
  library, with the arguments the handler passes. Building a request has no effect;
  \<^verbatim>\<open>oanda_client.request(r)\<close> is the one call that reaches the broker.
\<close>

datatype broker_request =
    AccountDetails string
  | OpenPositions string
  | OrderList string
  | PricingInfo string dict
  | InstrumentsCandles string dict
  | OrderCreate string dict
  | OrderCancel string string
  | PositionClose string string dict

text \<open>
  What the module reads from outside: the two globals set from the process environment,
  the broker client (for a request, either the exception \<^verbatim>\<open>request\<close> raises or the decoded
  body it stores in \<^verbatim>\<open>r.response\<close>), the clock of \<^verbatim>\<open>datetime.now().isoformat()\<close>, and the
  float operations.
\<close>

record env =
  OANDA_ACCOUNT_ID :: string
  OANDA_ENVIRONMENT :: string
  oanda_client :: "broker_request \<Rightarrow> exn + json"
  now_isoformat :: string
  floats :: float_ops

text \<open>
  A handler's run: the requests sent to the broker, in order, and either the exception
  that leaves the handler or the value it returns.
\<close>

type_synonym run = "broker_request list \<times> (exn + json)"

definition raise :: "exn \<Rightarrow> run" where
  "raise e = ([], Inl e)"

text \<open>
  \<^verbatim>\<open>oanda_client.request(r)\<close> followed by the rest of the \<^verbatim>\<open>try\<close> block, which reads
  \<^verbatim>\<open>r.response\<close> and sends nothing more.
\<close>

definition request :: "env \<Rightarrow> broker_request \<Rightarrow> (json \<Rightarrow> exn + json) \<Rightarrow> run" where
  "request E r k = ([r], bind_exn (oanda_client E r) k)"

text \<open>
  The two \<^verbatim>\<open>except\<close> clauses every handler but the health check ends with:
  \<^verbatim>\<open>except V20Error\<close> first, then \<^verbatim>\<open>except Exception\<close>. Logging is not modelled.
\<close>

fun except_clauses :: "exn \<Rightarrow> exn" where
  "except_clauses (V20Error code msg) =
     HTTPException 400 (''Oanda API error: '' @ str_exn (V20Error code msg))"
| "except_clauses e = HTTPException 500 (''Internal error: '' @ str_exn e)"

definition try_except :: "run \<Rightarrow> run" where
  "try_except r = (case snd r of Inl e \<Rightarrow> (fst r, Inl (except_clauses e)) | Inr v \<Rightarrow> r)"

definition success :: "json \<Rightarrow> exn + json" where
  "success data = Inr (JObj [(''success'', JBool True), (''data'', data)])"

subsection \<open>\<^verbatim>\<open>GET /\<close> and \<^verbatim>\<open>GET /health\<close>\<close>

definition root :: "env \<Rightarrow> run" where
  "root E = ([], Inr (JObj [
     (''message'', JStr ''Oanda MCP Server is running!''),
     (''environment'', JStr (OANDA_ENVIRONMENT E)),
     (''status'', JStr ''healthy''),
     (''timestamp'', JStr (now_isoformat E))]))"

definition health_check_try :: "env \<Rightarrow> run" where
  "health_check_try E =
     request E (AccountDetails (OANDA_ACCOUNT_ID E)) (\<lambda>response.
       Inr (JObj [
         (''status'', JStr ''healthy''),
         (''oanda_connection'', JStr ''ok''),
         (''account_id'', JStr (OANDA_ACCOUNT_ID E)),
         (''environment'', JStr (OANDA_ENVIRONMENT E))]))"

text \<open>Its single clause \<^verbatim>\<open>except Exception as e\<close> returns a value instead of raising.\<close>

definition health_check :: "env \<Rightarrow> run" where
  "health_check E =
     (let r = health_check_try E in
      case snd r of
        Inr v \<Rightarrow> r
      | Inl e \<Rightarrow> (fst r, Inr (JObj [
          (''status'', JStr ''unhealthy''),
          (''error'', JStr (str_exn e)),
          (''oanda_connection'', JStr ''failed'')])))"

subsection \<open>\<^verbatim>\<open>GET /account\<close>, \<^verbatim>\<open>/positions\<close>, \<^verbatim>\<open>/orders\<close>\<close>

text \<open>
  A dict display \<^verbatim>\<open>{out: v[key], ...}\<close>: the items are evaluated in order and the first
  failing subscript raises.
\<close>

fun getitems :: "json \<Rightarrow> (string \<times> string) list \<Rightarrow> exn + dict" where
  "getitems v [] = Inr []"
| "getitems v ((out, key) # rest) =
     bind_exn (py_getitem v key) (\<lambda>x.
     bind_exn (getitems v rest) (\<lambda>d. Inr ((out, x) # d)))"

definition get_account_info_try :: "env \<Rightarrow> run" where
  "get_account_info_try E =
     request E (AccountDetails (OANDA_ACCOUNT_ID E)) (\<lambda>response.
       bind_exn (py_getitem response ''account'') (\<lambda>account_info.
       bind_exn (getitems account_info [
           (''id'', ''id''),
           (''currency'', ''currency''),
           (''balance'', ''balance''),
           (''nav'', ''NAV''),
           (''unrealized_pl'', ''unrealizedPL''),
           (''margin_used'', ''marginUsed''),
           (''margin_available'', ''marginAvailable''),
           (''margin_rate'', ''marginRate''),
           (''open_trade_count'', ''openTradeCount''),
           (''open_position_count'', ''openPositionCount''),
           (''pending_order_count'', ''pendingOrderCount'')]) (\<lambda>d.
       success (JObj d))))"

definition get_account_info :: "env \<Rightarrow> run" where
  "get_account_info E = try_except (get_account_info_try E)"

text \<open>The shape shared by the two listings: \<^verbatim>\<open>data = r.response.get(key, [])\<close>, then its \<^verbatim>\<open>len\<close>.\<close>

definition listing :: "string \<Rightarrow> json \<Rightarrow> exn + json" where
  "listing key response =
     bind_exn (py_get response key (JList [])) (\<lambda>data.
     bind_exn (py_len data) (\<lambda>n.
     Inr (JObj [(''success'', JBool True), (''data'', data), (''count'', JInt n)])))"

definition get_positions_try :: "env \<Rightarrow> run" where
  "get_positions_try E = request E (OpenPositions (OANDA_ACCOUNT_ID E)) (listing ''positions'')"

definition get_positions :: "env \<Rightarrow> run" where
  "get_positions E = try_except (get_positions_try E)"

definition get_orders_try :: "env \<Rightarrow> run" where
  "get_orders_try E = request E (OrderList (OANDA_ACCOUNT_ID E)) (listing ''orders'')"

definition get_orders :: "env \<Rightarrow> run" where
  "get_orders E = try_except (get_orders_try E)"

subsection \<open>\<^verbatim>\<open>GET /price/{instrument}\<close>\<close>

text \<open>\<^verbatim>\<open>price_data.get(side, [{}])[0].get('price', default)\<close>.\<close>

definition first_price :: "json \<Rightarrow> string \<Rightarrow> json \<Rightarrow> exn + json" where
  "first_price price_data side dflt =
     bind_exn (py_get price_data side (JList [JObj []])) (\<lambda>rows.
     bind_exn (py_index0 rows) (\<lambda>row.
     py_get row ''price'' dflt))"

definition get_current_price_try :: "env \<Rightarrow> string \<Rightarrow> run" where
  "get_current_price_try E instrument =
     request E (PricingInfo (OANDA_ACCOUNT_ID E) [(''instruments'', JStr instrument)])
       (\<lambda>response.
       bind_exn (py_get response ''prices'' (JList [])) (\<lambda>prices.
       if \<not> py_bool (floats E) prices
       then Inl (HTTPException 404 (''No price data found for '' @ instrument))
       else
       bind_exn (py_index0 prices) (\<lambda>price_data.
       bind_exn (first_price price_data ''bids'' (JStr ''N/A'')) (\<lambda>bid.
       bind_exn (first_price price_data ''asks'' (JStr ''N/A'')) (\<lambda>ask.
       bind_exn (first_price price_data ''asks'' (JInt 0)) (\<lambda>a.
       bind_exn (py_float (floats E) a) (\<lambda>af.
       bind_exn (first_price price_data ''bids'' (JInt 0)) (\<lambda>b.
       bind_exn (py_float (floats E) b) (\<lambda>bf.
       bind_exn (py_get price_data ''time'' JNull) (\<lambda>time.
       success (JObj [
         (''instrument'', JStr instrument),
         (''bid'', bid),
         (''ask'', ask),
         (''spread'', JFloat (float_sub (floats E) af bf)),
         (''time'', time)])))))))))))"

definition get_current_price :: "env \<Rightarrow> string \<Rightarrow> run" where
  "get_current_price E instrument = try_except (get_current_price_try E instrument)"

subsection \<open>\<^verbatim>\<open>GET /historical/{instrument}\<close>\<close>

definition get_historical_data_try :: "env \<Rightarrow> string \<Rightarrow> string \<Rightarrow> int \<Rightarrow> run" where
  "get_historical_data_try E instrument granularity count =
     request E (InstrumentsCandles instrument
                  [(''granularity'', JStr granularity), (''count'', JInt (min count 5000))])
       (\<lambda>response.
       bind_exn (py_get response ''candles'' (JList [])) (\<lambda>candles.
       bind_exn (py_len candles) (\<lambda>n.
       success (JObj [
         (''instrument'', JStr instrument),
         (''granularity'', JStr granularity),
         (''candles'', candles),
         (''count'', JInt n)]))))"

text \<open>
  The query parameters are optional in the signature:
  \<^verbatim>\<open>granularity: str = "D", count: int = 100\<close>.
\<close>

definition get_historical_data :: "env \<Rightarrow> string \<Rightarrow> string option \<Rightarrow> int option \<Rightarrow> run" where
  "get_historical_data E instrument granularity count =
     try_except (get_historical_data_try E instrument
       (case granularity of None \<Rightarrow> ''D'' | Some g \<Rightarrow> g)
       (case count of None \<Rightarrow> 100 | Some c \<Rightarrow> c))"

subsection \<open>\<^verbatim>\<open>POST /order/market\<close> and \<^verbatim>\<open>POST /order/limit\<close>\<close>

text \<open>
  The loop \<^verbatim>\<open>for field in required_fields: if field not in order_request: raise ...\<close>
  stops at the first missing field.
\<close>

fun first_missing :: "string list \<Rightarrow> dict \<Rightarrow> string option" where
  "first_missing [] order_request = None"
| "first_missing (field # required_fields) order_request =
     (if map_of order_request field = None then Some field
      else first_missing required_fields order_request)"

text \<open>
  \<^verbatim>\<open>if order_request.get(field): order_data["order"][key] = {"price": str(order_request[field])}\<close>.
  \<^verbatim>\<open>.get\<close> gives \<^verbatim>\<open>None\<close>, which is falsy, for an absent field; the new key goes last.
\<close>

definition on_fill :: "float_ops \<Rightarrow> dict \<Rightarrow> string \<Rightarrow> string \<Rightarrow> dict \<Rightarrow> dict" where
  "on_fill F order_request field key order =
     (case map_of order_request field of
        None \<Rightarrow> order
      | Some v \<Rightarrow>
          if py_bool F v then order @ [(key, JObj [(''price'', JStr (py_str F v))])]
          else order)"

definition place_market_order_try :: "env \<Rightarrow> dict \<Rightarrow> run" where
  "place_market_order_try E order_request =
     (case first_missing [''instrument'', ''units''] order_request of
        Some field \<Rightarrow> raise (HTTPException 400 (''Missing required field: '' @ field))
      | None \<Rightarrow>
          (case py_getitem (JObj order_request) ''instrument'' of
             Inl e \<Rightarrow> raise e
           | Inr instrument \<Rightarrow>
          (case py_getitem (JObj order_request) ''units'' of
             Inl e \<Rightarrow> raise e
           | Inr units \<Rightarrow>
          (let order = [(''type'', JStr ''MARKET''),
                        (''instrument'', instrument),
                        (''units'', JStr (py_str (floats E) units))];
               order = on_fill (floats E) order_request ''stop_loss'' ''stopLossOnFill'' order;
               order = on_fill (floats E) order_request ''take_profit'' ''takeProfitOnFill'' order
           in request E (OrderCreate (OANDA_ACCOUNT_ID E) [(''order'', JObj order)]) success))))"

definition place_market_order :: "env \<Rightarrow> dict \<Rightarrow> run" where
  "place_market_order E order_request = try_except (place_market_order_try E order_request)"

definition place_limit_order_try :: "env \<Rightarrow> dict \<Rightarrow> run" where
  "place_limit_order_try E order_request =
     (case first_missing [''instrument'', ''units'', ''price''] order_request of
        Some field \<Rightarrow> raise (HTTPException 400 (''Missing required field: '' @ field))
      | None \<Rightarrow>
          (case py_getitem (JObj order_request) ''instrument'' of
             Inl e \<Rightarrow> raise e
           | Inr instrument \<Rightarrow>
          (case py_getitem (JObj order_request) ''units'' of
             Inl e \<Rightarrow> raise e
           | Inr units \<Rightarrow>
          (case py_getitem (JObj order_request) ''price'' of
             Inl e \<Rightarrow> raise e
           | Inr price \<Rightarrow>
          (let order = [(''type'', JStr ''LIMIT''),
                        (''instrument'', instrument),
                        (''units'', JStr (py_str (floats E) units)),
                        (''price'', JStr (py_str (floats E) price))];
               order = on_fill (floats E) order_request ''stop_loss'' ''stopLossOnFill'' order;
               order = on_fill (floats E) order_request ''take_profit'' ''takeProfitOnFill'' order
           in request E (OrderCreate (OANDA_ACCOUNT_ID E) [(''order'', JObj order)]) success)))))"

definition place_limit_order :: "env \<Rightarrow> dict \<Rightarrow> run" where
  "place_limit_order E order_request = try_except (place_limit_order_try E order_request)"

subsection \<open>\<^verbatim>\<open>DELETE /order/{order_id}\<close>\<close>

definition cancel_order_try :: "env \<Rightarrow> string \<Rightarrow> run" where
  "cancel_order_try E order_id = request E (OrderCancel (OANDA_ACCOUNT_ID E) order_id) success"

definition cancel_order :: "env \<Rightarrow> string \<Rightarrow> run" where
  "cancel_order E order_id = try_except (cancel_order_try E order_id)"

subsection \<open>\<^verbatim>\<open>POST /position/close/{instrument}\<close>\<close>

definition close_position_try :: "env \<Rightarrow> string \<Rightarrow> string \<Rightarrow> run" where
  "close_position_try E instrument units =
     (if units = ''ALL''
      then request E (PositionClose (OANDA_ACCOUNT_ID E) instrument
                        [(''longUnits'', JStr ''ALL''), (''shortUnits'', JStr ''ALL'')]) success
      else
        (case py_int units of
           Inl e \<Rightarrow> raise e
         | Inr n \<Rightarrow>
             if n > 0
             then request E (PositionClose (OANDA_ACCOUNT_ID E) instrument
                               [(''longUnits'', JStr units)]) success
             else request E (PositionClose (OANDA_ACCOUNT_ID E) instrument
                               [(''shortUnits'', JStr (str_int (abs n)))]) success))"

text \<open>The query parameter is optional in the signature: \<^verbatim>\<open>units: str = "ALL"\<close>.\<close>

definition close_position :: "env \<Rightarrow> string \<Rightarrow> string option \<Rightarrow> run" where
  "close_position E instrument units =
     try_except (close_position_try E instrument (case units of None \<Rightarrow> ''ALL'' | Some u \<Rightarrow> u))"

section \<open>The application\<close>

text \<open>
  What the framework does with a handler's outcome. A returned value is rendered by
  \<^verbatim>\<open>JSONResponse\<close> as the body of a 200 response; the rendering is
  \<^verbatim>\<open>json.dumps(..., allow_nan=False)\<close>, which raises a \<^verbatim>\<open>ValueError\<close> when the value holds a
  NaN or an infinity. An \<^verbatim>\<open>HTTPException\<close> goes to FastAPI's own handler, which answers with
  its status and \<^verbatim>\<open>{"detail": detail}\<close>. Any other exception, the one of the rendering
  included, goes to the handler the module registers for \<^verbatim>\<open>Exception\<close>.

  The integers of a body are decoded JSON integers or lengths, and its strings have code
  points below 256, so the floats are all that can make the rendering fail.
\<close>

fun json_compliant :: "json \<Rightarrow> bool" where
  "json_compliant (JFloat x) = float_finite x"
| "json_compliant (JList xs) = list_all json_compliant xs"
| "json_compliant (JObj kvs) = list_all (\<lambda>kv. json_compliant (snd kv)) kvs"
| "json_compliant v = True"

definition render_error :: exn where
  "render_error = PyError ''ValueError'' ''Out of range float values are not JSON compliant''"

record response =
  status_code :: int
  content :: json

definition global_exception_handler :: "exn \<Rightarrow> response" where
  "global_exception_handler exc =
     \<lparr>status_code = 500,
      content = JObj [(''success'', JBool False),
                      (''error'', JStr ''Internal server error''),
                      (''detail'', JStr (str_exn exc))]\<rparr>"

fun respond :: "exn + json \<Rightarrow> response" where
  "respond (Inr v) =
     (if json_compliant v then \<lparr>status_code = 200, content = v\<rparr>
      else global_exception_handler render_error)"
| "respond (Inl (HTTPException status detail)) =
     \<lparr>status_code = status, content = JObj [(''detail'', JStr detail)]\<rparr>"
| "respond (Inl exc) = global_exception_handler exc"

text \<open>
  The routes, with the arguments FastAPI hands to the handler once the path, the query
  and the body have passed its own validation (a body that is a JSON object, an integer
  \<^verbatim>\<open>count\<close>).
\<close>

datatype http_request =
    GET_root
  | GET_health
  | GET_account
  | GET_positions
  | GET_orders
  | GET_price string
  | GET_historical string "string option" "int option"
  | POST_order_market dict
  | POST_order_limit dict
  | DELETE_order string
  | POST_position_close string "string option"

fun handler :: "env \<Rightarrow> http_request \<Rightarrow> run" where
  "handler E GET_root = root E"
| "handler E GET_health = health_check E"
| "handler E GET_account = get_account_info E"
| "handler E GET_positions = get_positions E"
| "handler E GET_orders = get_orders E"
| "handler E (GET_price instrument) = get_current_price E instrument"
| "handler E (GET_historical instrument granularity count) =
     get_historical_data E instrument granularity count"
| "handler E (POST_order_market order_request) = place_market_order E order_request"
| "handler E (POST_order_limit order_request) = place_limit_order E order_request"
| "handler E (DELETE_order order_id) = cancel_order E order_id"
| "handler E (POST_position_close instrument units) = close_position E instrument units"

text \<open>The requests the broker received while the gateway served one HTTP request.\<close>

definition broker_calls :: "env \<Rightarrow> http_request \<Rightarrow> broker_request list" where
  "broker_calls E req = fst (handler E req)"

text \<open>The HTTP response to it.\<close>

definition app :: "env \<Rightarrow> http_request \<Rightarrow> response" where
  "app E req = respond (snd (handler E req))"

text \<open>
  The \<^verbatim>\<open>try\<close> block of the handler that serves a request (\<^verbatim>\<open>root\<close> has none: its body).
  The handlers of \<open>guarded\<close> requests end with the two clauses of \<open>except_clauses\<close>.
\<close>

fun try_block :: "env \<Rightarrow> http_request \<Rightarrow> run" where
  "try_block E GET_root = root E"
| "try_block E GET_health = health_check_try E"
| "try_block E GET_account = get_account_info_try E"
| "try_block E GET_positions = get_positions_try E"
| "try_block E GET_orders = get_orders_try E"
| "try_block E (GET_price instrument) = get_current_price_try E instrument"
| "try_block E (GET_historical instrument granularity count) =
     get_historical_data_try E instrument
       (case granularity of None \<Rightarrow> ''D'' | Some g \<Rightarrow> g)
       (case count of None \<Rightarrow> 100 | Some c \<Rightarrow> c)"
| "try_block E (POST_order_market order_request) = place_market_order_try E order_request"
| "try_block E (POST_order_limit order_request) = place_limit_order_try E order_request"
| "try_block E (DELETE_order order_id) = cancel_order_try E order_id"
| "try_block E (POST_position_close instrument units) =
     close_position_try E instrument (case units of None \<Rightarrow> ''ALL'' | Some u \<Rightarrow> u)"

fun guarded :: "http_request \<Rightarrow> bool" where
  "guarded GET_root = False"
| "guarded GET_health = False"
| "guarded req = True"

fun is_V20Error :: "exn \<Rightarrow> bool" where
  "is_V20Error (V20Error code msg) = True"
| "is_V20Error e = False"

definition detail :: "string \<Rightarrow> json" where
  "detail d = JObj [(''detail'', JStr d)]"

section \<open>Sample environments\<close>

text \<open>
  Concrete environments for the instances below: an account on the practice
  environment, float operations that are never reached by those instances, and a broker
  client that answers every request the same way.
\<close>

definition sample_floats :: float_ops where
  "sample_floats =
     \<lparr>float_repr = (\<lambda>x. ''0.0''), float_bool = (\<lambda>x. False),
      float_of_str = (\<lambda>s. None), float_of_int = (\<lambda>i. None), float_sub = (\<lambda>x y. x)\<rparr>"

definition sample_env :: "exn + json \<Rightarrow> env" where
  "sample_env answer =
     \<lparr>OANDA_ACCOUNT_ID = ''101-001-1234567-001'', OANDA_ENVIRONMENT = ''practice'',
      oanda_client = (\<lambda>r. answer), now_isoformat = ''2024-01-01T00:00:00'',
      floats = sample_floats\<rparr>"

text \<open>
  A quote with bid \<^verbatim>\<open>"1.1000"\<close> and ask \<^verbatim>\<open>"1.1002"\<close>, and the float operations at the values
  that quote needs, as binary64 has them: \<^verbatim>\<open>float("1.1002")\<close> is
  \<open>1238715077508255 / 2\<^sup>5\<^sup>0\<close>, \<^verbatim>\<open>float("1.1000")\<close> is \<open>2476979795053773 / 2\<^sup>5\<^sup>1\<close>, and their
  difference, which is exact, is \<open>450359962737 / 2\<^sup>5\<^sup>1\<close> (printed
  \<^verbatim>\<open>0.00019999999999997797\<close>).
\<close>

definition quote :: "string \<Rightarrow> string \<Rightarrow> json \<Rightarrow> json" where
  "quote bid ask t =
     JObj [(''prices'', JList [JObj [
       (''bids'', JList [JObj [(''price'', JStr bid)]]),
       (''asks'', JList [JObj [(''price'', JStr ask)]]),
       (''time'', t)]])]"

definition quote_floats :: float_ops where
  "quote_floats =
     \<lparr>float_repr = (\<lambda>x. ''0.00019999999999997797''),
      float_bool = (\<lambda>x. True),
      float_of_str = (\<lambda>s.
        if s = ''1.1002'' then Some (PyFloat False 1238715077508255 (- 50))
        else if s = ''1.1000'' then Some (PyFloat False 2476979795053773 (- 51))
        else None),
      float_of_int = (\<lambda>i. None),
      float_sub = (\<lambda>x y.
        if x = PyFloat False 1238715077508255 (- 50) \<and> y = PyFloat False 2476979795053773 (- 51)
        then PyFloat False 450359962737 (- 51)
        else PyNaN)\<rparr>"

definition quote_env :: env where
  "quote_env =
     \<lparr>OANDA_ACCOUNT_ID = ''101-001-1234567-001'', OANDA_ENVIRONMENT = ''practice'',
      oanda_client = (\<lambda>r. Inr (quote ''1.1000'' ''1.1002'' (JStr ''2024-01-01T00:00:00.000000000Z''))),
      now_isoformat = ''2024-01-01T00:00:00'',
      floats = quote_floats\<rparr>"

section \<open>Properties\<close>

subsection \<open>The handler plumbing\<close>

lemma fst_try_except: "fst (try_except r) = fst r"
  by (simp add: try_except_def split: sum.split)

lemma snd_try_except:
  "snd (try_except r) = (case snd r of Inl e \<Rightarrow> Inl (except_clauses e) | Inr v \<Rightarrow> Inr v)"
  by (cases r) (simp add: try_except_def split: sum.split)

lemma fst_request: "fst (request E r k) = [r]"
  by (simp add: request_def)

lemma snd_request: "snd (request E r k) = bind_exn (oanda_client E r) k"
  by (simp add: request_def)

lemma fst_raise: "fst (raise e) = []"
  by (simp add: raise_def)

lemma snd_raise: "snd (raise e) = Inl e"
  by (simp add: raise_def)

subsection \<open>Evaluating the built-ins\<close>

lemma str_int_400: "str_int 400 = ''400''"
  by (simp add: str_int_def dec_digits.simps digit_char_def)

lemma str_int_404: "str_int 404 = ''404''"
  by (simp add: str_int_def dec_digits.simps digit_char_def)

lemma str_int_500: "str_int 500 = ''500''"
  by (simp add: str_int_def dec_digits.simps digit_char_def)

lemma py_int_error: "py_int s = Inl e \<Longrightarrow> \<not> is_V20Error e"
  by (auto simp: py_int_def invalid_literal_def exceeds_limit_def
           split: option.splits prod.splits if_splits)

lemma py_int_ALL: "py_int ''ALL'' = Inl (invalid_literal ''ALL'')"
  by (simp add: py_int_def int_literal_def int_space_def is_digit_def)

lemma py_int_500: "py_int ''500'' = Inr 500"
  by (simp add: py_int_def int_literal_def int_space_def is_digit_def int_max_str_digits_def
        digits_val_def digit_val_def)

lemma py_int_m500: "py_int ''-500'' = Inr (- 500)"
  by (simp add: py_int_def int_literal_def int_space_def is_digit_def int_max_str_digits_def
        digits_val_def digit_val_def)

lemma py_int_abc: "py_int ''abc'' = Inl (invalid_literal ''abc'')"
  by (simp add: py_int_def int_literal_def int_space_def is_digit_def)

lemma repr_abc: "repr_str ''abc'' = [CHR 0x27] @ ''abc'' @ [CHR 0x27]"
  by (simp add: repr_str_def repr_char_def printable_def Let_def)

lemma invalid_literal_abc:
  "str_exn (invalid_literal ''abc'') =
     ''invalid literal for int() with base 10: '' @ [CHR 0x27] @ ''abc'' @ [CHR 0x27]"
  by (simp add: invalid_literal_def repr_abc)

lemma respond_except:
  "respond (Inl (except_clauses e)) =
     (if is_V20Error e
      then \<lparr>status_code = 400, content = detail (''Oanda API error: '' @ str_exn e)\<rparr>
      else \<lparr>status_code = 500, content = detail (''Internal error: '' @ str_exn e)\<rparr>)"
  by (cases e) (simp_all add: detail_def)

subsection \<open>Historical candles\<close>

text \<open>
  C6. \<^verbatim>\<open>GET /historical/{instrument}\<close> always sends exactly one candle request, whose
  \<^verbatim>\<open>count\<close> is the minimum of the requested count and 5000; an omitted granularity is
  \<^verbatim>\<open>"D"\<close> and an omitted count is 100.
\<close>

theorem historical_count_capped:
  "broker_calls E (GET_historical instrument granularity count) =
     [InstrumentsCandles instrument
        [(''granularity'', JStr (case granularity of None \<Rightarrow> ''D'' | Some g \<Rightarrow> g)),
         (''count'', JInt (min (case count of None \<Rightarrow> 100 | Some c \<Rightarrow> c) 5000))]]"
  by (simp add: broker_calls_def get_historical_data_def get_historical_data_try_def
        fst_try_except fst_request)

text \<open>The spec's instance: a count of 999999 is forwarded as 5000.\<close>

theorem historical_count_capped_witness:
  "broker_calls (sample_env (Inr (JObj []))) (GET_historical ''EUR_USD'' None (Some 999999)) =
     [InstrumentsCandles ''EUR_USD'' [(''granularity'', JStr ''D''), (''count'', JInt 5000)]]
   \<and> broker_calls (sample_env (Inr (JObj []))) (GET_historical ''EUR_USD'' (Some ''H1'') None) =
     [InstrumentsCandles ''EUR_USD'' [(''granularity'', JStr ''H1''), (''count'', JInt 100)]]"
  using historical_count_capped [of "sample_env (Inr (JObj []))" "''EUR_USD''" None "Some 999999"]
        historical_count_capped [of "sample_env (Inr (JObj []))" "''EUR_USD''" "Some ''H1''" None]
  by simp

subsection \<open>The health check\<close>

text \<open>
  C7. \<^verbatim>\<open>GET /health\<close> answers 200 whatever the broker does. It probes the broker once; when
  the probe raises any exception \<open>e\<close> the body is the \<^verbatim>\<open>unhealthy\<close> report carrying
  \<^verbatim>\<open>str(e)\<close>, and when the probe returns the body is the \<^verbatim>\<open>healthy\<close> report.
\<close>

theorem health_always_200:
  "status_code (app E GET_health) = 200
   \<and> broker_calls E GET_health = [AccountDetails (OANDA_ACCOUNT_ID E)]
   \<and> (\<forall>e. oanda_client E (AccountDetails (OANDA_ACCOUNT_ID E)) = Inl e \<longrightarrow>
         app E GET_health =
           \<lparr>status_code = 200,
            content = JObj [(''status'', JStr ''unhealthy''),
                            (''error'', JStr (str_exn e)),
                            (''oanda_connection'', JStr ''failed'')]\<rparr>)
   \<and> (\<forall>v. oanda_client E (AccountDetails (OANDA_ACCOUNT_ID E)) = Inr v \<longrightarrow>
         app E GET_health =
           \<lparr>status_code = 200,
            content = JObj [(''status'', JStr ''healthy''),
                            (''oanda_connection'', JStr ''ok''),
                            (''account_id'', JStr (OANDA_ACCOUNT_ID E)),
                            (''environment'', JStr (OANDA_ENVIRONMENT E))]\<rparr>)"
  by (cases "oanda_client E (AccountDetails (OANDA_ACCOUNT_ID E))")
     (simp_all add: app_def broker_calls_def health_check_def health_check_try_def request_def
        bind_exn_def Let_def)

text \<open>The instances: a broker error, a failure that is not the broker's, a reachable broker.\<close>

theorem health_always_200_witness:
  "app (sample_env (Inl (V20Error 401 ''Insufficient authorization''))) GET_health =
     \<lparr>status_code = 200,
      content = JObj [(''status'', JStr ''unhealthy''),
                      (''error'', JStr ''Insufficient authorization''),
                      (''oanda_connection'', JStr ''failed'')]\<rparr>
   \<and> app (sample_env (Inl (PyError ''ConnectionError'' ''Connection refused''))) GET_health =
     \<lparr>status_code = 200,
      content = JObj [(''status'', JStr ''unhealthy''),
                      (''error'', JStr ''Connection refused''),
                      (''oanda_connection'', JStr ''failed'')]\<rparr>
   \<and> app (sample_env (Inr (JObj []))) GET_health =
     \<lparr>status_code = 200,
      content = JObj [(''status'', JStr ''healthy''),
                      (''oanda_connection'', JStr ''ok''),
                      (''account_id'', JStr ''101-001-1234567-001''),
                      (''environment'', JStr ''practice'')]\<rparr>"
  using health_always_200 [of "sample_env (Inl (V20Error 401 ''Insufficient authorization''))"]
        health_always_200 [of "sample_env (Inl (PyError ''ConnectionError'' ''Connection refused''))"]
        health_always_200 [of "sample_env (Inr (JObj []))"]
  by (simp add: sample_env_def)

subsection \<open>Closing a position\<close>

text \<open>
  C3. \<^verbatim>\<open>POST /position/close/{instrument}\<close>: with \<^verbatim>\<open>units\<close> omitted or equal to \<^verbatim>\<open>"ALL"\<close> the
  broker receives \<^verbatim>\<open>{longUnits: "ALL", shortUnits: "ALL"}\<close>; with a \<^verbatim>\<open>units\<close> text that
  \<^verbatim>\<open>int\<close> reads as a positive number it receives \<^verbatim>\<open>{longUnits: units}\<close>, the text as it came;
  with one read as a negative number \<open>n\<close> it receives \<^verbatim>\<open>{shortUnits: str(abs(n))}\<close>. In each
  case that is the only request sent.
\<close>

theorem close_position_payload:
  "broker_calls E (POST_position_close instrument None) =
     [PositionClose (OANDA_ACCOUNT_ID E) instrument
        [(''longUnits'', JStr ''ALL''), (''shortUnits'', JStr ''ALL'')]]
   \<and> broker_calls E (POST_position_close instrument (Some ''ALL'')) =
     [PositionClose (OANDA_ACCOUNT_ID E) instrument
        [(''longUnits'', JStr ''ALL''), (''shortUnits'', JStr ''ALL'')]]
   \<and> (py_int units = Inr n \<and> 0 < n \<longrightarrow>
        broker_calls E (POST_position_close instrument (Some units)) =
          [PositionClose (OANDA_ACCOUNT_ID E) instrument [(''longUnits'', JStr units)]])
   \<and> (py_int units = Inr n \<and> n < 0 \<longrightarrow>
        broker_calls E (POST_position_close instrument (Some units)) =
          [PositionClose (OANDA_ACCOUNT_ID E) instrument [(''shortUnits'', JStr (str_int (- n)))]])"
proof -
  have all: "fst (close_position_try E instrument ''ALL'') =
     [PositionClose (OANDA_ACCOUNT_ID E) instrument
        [(''longUnits'', JStr ''ALL''), (''shortUnits'', JStr ''ALL'')]]"
    by (simp add: close_position_try_def fst_request)
  have not_all: "units \<noteq> ''ALL''" if "py_int units = Inr n"
    using that py_int_ALL by auto
  have long: "fst (close_position_try E instrument units) =
      [PositionClose (OANDA_ACCOUNT_ID E) instrument [(''longUnits'', JStr units)]]"
    if "py_int units = Inr n" "0 < n"
    using that not_all by (simp add: close_position_try_def fst_request)
  have short: "fst (close_position_try E instrument units) =
      [PositionClose (OANDA_ACCOUNT_ID E) instrument [(''shortUnits'', JStr (str_int (- n)))]]"
    if "py_int units = Inr n" "n < 0"
    using that not_all by (simp add: close_position_try_def fst_request)
  show ?thesis
    using all long short
    by (simp add: broker_calls_def close_position_def fst_try_except)
qed

text \<open>The spec's instances: \<^verbatim>\<open>"ALL"\<close>, \<^verbatim>\<open>"500"\<close> and \<^verbatim>\<open>"-500"\<close>.\<close>

theorem close_position_payload_witness:
  "broker_calls (sample_env (Inr (JObj []))) (POST_position_close ''EUR_USD'' (Some ''ALL'')) =
     [PositionClose ''101-001-1234567-001'' ''EUR_USD''
        [(''longUnits'', JStr ''ALL''), (''shortUnits'', JStr ''ALL'')]]
   \<and> broker_calls (sample_env (Inr (JObj []))) (POST_position_close ''EUR_USD'' (Some ''500'')) =
     [PositionClose ''101-001-1234567-001'' ''EUR_USD'' [(''longUnits'', JStr ''500'')]]
   \<and> broker_calls (sample_env (Inr (JObj []))) (POST_position_close ''EUR_USD'' (Some ''-500'')) =
     [PositionClose ''101-001-1234567-001'' ''EUR_USD'' [(''shortUnits'', JStr ''500'')]]"
  using close_position_payload [of "sample_env (Inr (JObj []))" "''EUR_USD''" "''500''" 500]
        close_position_payload [of "sample_env (Inr (JObj []))" "''EUR_USD''" "''-500''" "- 500"]
        py_int_500 py_int_m500 str_int_500
  by (simp add: sample_env_def)

text \<open>
  C5 as stated (malformed \<^verbatim>\<open>units\<close> answered with HTTP 400) fails: \<^verbatim>\<open>int("abc")\<close> raises a
  \<^verbatim>\<open>ValueError\<close>, which the handler's \<^verbatim>\<open>except Exception\<close> clause turns into a 500.
\<close>

theorem close_position_malformed_units_counterexample:
  "''abc'' \<noteq> ''ALL''
   \<and> py_int ''abc'' = Inl (invalid_literal ''abc'')
   \<and> broker_calls (sample_env (Inr (JObj []))) (POST_position_close ''EUR_USD'' (Some ''abc'')) = []
   \<and> status_code (app (sample_env (Inr (JObj []))) (POST_position_close ''EUR_USD'' (Some ''abc'')))
       = 500
   \<and> status_code (app (sample_env (Inr (JObj []))) (POST_position_close ''EUR_USD'' (Some ''abc'')))
       \<noteq> 400"
  by (simp add: py_int_abc app_def broker_calls_def close_position_def close_position_try_def
        fst_try_except snd_try_except fst_raise snd_raise invalid_literal_def)

text \<open>
  C5, amended. When \<^verbatim>\<open>units\<close> is neither \<^verbatim>\<open>"ALL"\<close> nor a text \<^verbatim>\<open>int\<close> can read, the broker is
  not called and the response is HTTP 500 whose detail is \<^verbatim>\<open>"Internal error: "\<close> followed by
  the text of the \<^verbatim>\<open>ValueError\<close>.
\<close>

theorem close_position_malformed_units:
  "units \<noteq> ''ALL'' \<and> py_int units = Inl e \<longrightarrow>
     broker_calls E (POST_position_close instrument (Some units)) = []
     \<and> app E (POST_position_close instrument (Some units)) =
         \<lparr>status_code = 500, content = detail (''Internal error: '' @ str_exn e)\<rparr>"
  using py_int_error [of units e]
  by (simp add: broker_calls_def app_def close_position_def close_position_try_def
        fst_try_except snd_try_except fst_raise snd_raise respond_except)

theorem close_position_malformed_units_witness:
  "broker_calls (sample_env (Inr (JObj []))) (POST_position_close ''EUR_USD'' (Some ''abc'')) = []
   \<and> app (sample_env (Inr (JObj []))) (POST_position_close ''EUR_USD'' (Some ''abc'')) =
       \<lparr>status_code = 500,
        content = detail (''Internal error: invalid literal for int() with base 10: ''
                          @ [CHR 0x27] @ ''abc'' @ [CHR 0x27])\<rparr>"
  using close_position_malformed_units
          [of "''abc''" "invalid_literal ''abc''" "sample_env (Inr (JObj []))" "''EUR_USD''"]
        py_int_abc invalid_literal_abc
  by simp

subsection \<open>Orders with a missing required field\<close>

lemma first_missing_None:
  "first_missing fs req = None \<longleftrightarrow> (\<forall>f \<in> set fs. map_of req f \<noteq> None)"
  by (induction fs) auto

lemma first_missing_Some:
  "first_missing fs req = Some f \<Longrightarrow> f \<in> set fs \<and> map_of req f = None"
  by (induction fs) (auto split: if_splits)

lemma first_missing_cases:
  "(\<exists>f \<in> set fs. map_of req f = None) \<Longrightarrow> \<exists>f \<in> set fs. first_missing fs req = Some f"
  using first_missing_None [of fs req] first_missing_Some [of fs req]
  by (cases "first_missing fs req") auto

lemma missing_field_500:
  "respond (Inl (except_clauses (HTTPException 400 (''Missing required field: '' @ field)))) =
     \<lparr>status_code = 500,
      content = detail (''Internal error: 400: Missing required field: '' @ field)\<rparr>"
  by (simp add: respond_except str_int_400 detail_def)

lemma market_missing:
  assumes "first_missing [''instrument'', ''units''] req = Some field"
  shows "broker_calls E (POST_order_market req) = []"
    and "app E (POST_order_market req) =
           \<lparr>status_code = 500,
            content = detail (''Internal error: 400: Missing required field: '' @ field)\<rparr>"
  using assms missing_field_500 [of field]
  by (simp_all add: broker_calls_def app_def place_market_order_def place_market_order_try_def
        fst_try_except snd_try_except fst_raise snd_raise)

lemma limit_missing:
  assumes "first_missing [''instrument'', ''units'', ''price''] req = Some field"
  shows "broker_calls E (POST_order_limit req) = []"
    and "app E (POST_order_limit req) =
           \<lparr>status_code = 500,
            content = detail (''Internal error: 400: Missing required field: '' @ field)\<rparr>"
  using assms missing_field_500 [of field]
  by (simp_all add: broker_calls_def app_def place_limit_order_def place_limit_order_try_def
        fst_try_except snd_try_except fst_raise snd_raise)

text \<open>
  C1, as the code behaves. When a required field is missing (\<^verbatim>\<open>instrument\<close> or \<^verbatim>\<open>units\<close> for a
  market order; \<^verbatim>\<open>instrument\<close>, \<^verbatim>\<open>units\<close> or \<^verbatim>\<open>price\<close> for a limit order) the broker is never
  called, as claimed. The handler raises \<^verbatim>\<open>HTTPException(status_code=400, ...)\<close> naming the
  first missing field, but raises it inside its own \<^verbatim>\<open>try\<close> block: \<^verbatim>\<open>HTTPException\<close> is an
  \<^verbatim>\<open>Exception\<close>, so the clause \<^verbatim>\<open>except Exception\<close> catches it and the response is HTTP 500
  with the 400 message wrapped in \<^verbatim>\<open>"Internal error: "\<close>.
\<close>

theorem order_missing_field_is_500:
  "(map_of req ''instrument'' = None \<or> map_of req ''units'' = None \<longrightarrow>
      broker_calls E (POST_order_market req) = []
      \<and> (\<exists>field \<in> {''instrument'', ''units''}.
            app E (POST_order_market req) =
              \<lparr>status_code = 500,
               content = detail (''Internal error: 400: Missing required field: '' @ field)\<rparr>))
   \<and> (map_of req ''instrument'' = None \<or> map_of req ''units'' = None
        \<or> map_of req ''price'' = None \<longrightarrow>
      broker_calls E (POST_order_limit req) = []
      \<and> (\<exists>field \<in> {''instrument'', ''units'', ''price''}.
            app E (POST_order_limit req) =
              \<lparr>status_code = 500,
               content = detail (''Internal error: 400: Missing required field: '' @ field)\<rparr>))"
proof (intro conjI impI)
  assume "map_of req ''instrument'' = None \<or> map_of req ''units'' = None"
  then have "\<exists>f \<in> set [''instrument'', ''units'']. map_of req f = None" by auto
  from first_missing_cases [OF this]
  obtain f where f: "f \<in> {''instrument'', ''units''}"
    "first_missing [''instrument'', ''units''] req = Some f" by auto
  show "broker_calls E (POST_order_market req) = []"
    using market_missing(1) [OF f(2)] .
  show "\<exists>field \<in> {''instrument'', ''units''}.
            app E (POST_order_market req) =
              \<lparr>status_code = 500,
               content = detail (''Internal error: 400: Missing required field: '' @ field)\<rparr>"
    using market_missing(2) [OF f(2)] f(1) by blast
next
  assume "map_of req ''instrument'' = None \<or> map_of req ''units'' = None
        \<or> map_of req ''price'' = None"
  then have "\<exists>f \<in> set [''instrument'', ''units'', ''price'']. map_of req f = None" by auto
  from first_missing_cases [OF this]
  obtain f where f: "f \<in> {''instrument'', ''units'', ''price''}"
    "first_missing [''instrument'', ''units'', ''price''] req = Some f" by auto
  show "broker_calls E (POST_order_limit req) = []"
    using limit_missing(1) [OF f(2)] .
  show "\<exists>field \<in> {''instrument'', ''units'', ''price''}.
            app E (POST_order_limit req) =
              \<lparr>status_code = 500,
               content = detail (''Internal error: 400: Missing required field: '' @ field)\<rparr>"
    using limit_missing(2) [OF f(2)] f(1) by blast
qed

text \<open>A market order without \<^verbatim>\<open>units\<close> and a limit order without \<^verbatim>\<open>price\<close>.\<close>

theorem order_missing_field_is_500_witness:
  "broker_calls (sample_env (Inr (JObj []))) (POST_order_market [(''instrument'', JStr ''EUR_USD'')]) = []
   \<and> app (sample_env (Inr (JObj []))) (POST_order_market [(''instrument'', JStr ''EUR_USD'')]) =
       \<lparr>status_code = 500,
        content = detail ''Internal error: 400: Missing required field: units''\<rparr>
   \<and> broker_calls (sample_env (Inr (JObj [])))
        (POST_order_limit [(''instrument'', JStr ''EUR_USD''), (''units'', JInt 100)]) = []
   \<and> app (sample_env (Inr (JObj [])))
        (POST_order_limit [(''instrument'', JStr ''EUR_USD''), (''units'', JInt 100)]) =
       \<lparr>status_code = 500,
        content = detail ''Internal error: 400: Missing required field: price''\<rparr>"
proof -
  let ?E = "sample_env (Inr (JObj []))"
  let ?m = "[(''instrument'', JStr ''EUR_USD'')]"
  let ?l = "[(''instrument'', JStr ''EUR_USD''), (''units'', JInt 100)]"
  have m: "app ?E (POST_order_market ?m) =
       \<lparr>status_code = 500,
        content = detail ''Internal error: 400: Missing required field: units''\<rparr>"
    by (simp add: app_def place_market_order_def place_market_order_try_def snd_try_except
          snd_raise respond_except str_int_400 detail_def)
  have l: "app ?E (POST_order_limit ?l) =
       \<lparr>status_code = 500,
        content = detail ''Internal error: 400: Missing required field: price''\<rparr>"
    by (simp add: app_def place_limit_order_def place_limit_order_try_def snd_try_except
          snd_raise respond_except str_int_400 detail_def)
  show ?thesis
    using order_missing_field_is_500 [of ?m ?E] order_missing_field_is_500 [of ?l ?E] m l
    by simp
qed

subsection \<open>A price request without price rows\<close>

text \<open>
  C4, as the code behaves. When the broker's answer has no \<^verbatim>\<open>prices\<close> or an empty list of
  them, the handler raises \<^verbatim>\<open>HTTPException(status_code=404, ...)\<close> inside its \<^verbatim>\<open>try\<close> block,
  the clause \<^verbatim>\<open>except Exception\<close> catches it, and the response is HTTP 500 with the 404
  message wrapped in \<^verbatim>\<open>"Internal error: "\<close>.
\<close>

theorem no_price_data_is_500:
  "oanda_client E (PricingInfo (OANDA_ACCOUNT_ID E) [(''instruments'', JStr instrument)])
     = Inr (JObj d)
   \<and> (map_of d ''prices'' = None \<or> map_of d ''prices'' = Some (JList [])) \<longrightarrow>
     broker_calls E (GET_price instrument) =
       [PricingInfo (OANDA_ACCOUNT_ID E) [(''instruments'', JStr instrument)]]
     \<and> app E (GET_price instrument) =
         \<lparr>status_code = 500,
          content = detail (''Internal error: 404: No price data found for '' @ instrument)\<rparr>"
  by (auto simp: broker_calls_def app_def get_current_price_def get_current_price_try_def
        fst_try_except snd_try_except fst_request snd_request bind_exn_def respond_except
        str_int_404 detail_def)

theorem no_price_data_is_500_witness:
  "app (sample_env (Inr (JObj [(''prices'', JList [])]))) (GET_price ''EUR_USD'') =
     \<lparr>status_code = 500,
      content = detail ''Internal error: 404: No price data found for EUR_USD''\<rparr>
   \<and> status_code (app (sample_env (Inr (JObj [(''prices'', JList [])]))) (GET_price ''EUR_USD''))
       \<noteq> 404"
  using no_price_data_is_500
          [of "sample_env (Inr (JObj [(''prices'', JList [])]))" "''EUR_USD''"
              "[(''prices'', JList [])]"]
  by (simp add: sample_env_def)

subsection \<open>The order payload\<close>

lemma on_fill_append: "on_fill F req field key order = order @ on_fill F req field key []"
  by (simp add: on_fill_def split: option.split)

lemma map_of_on_fill_empty:
  "map_of (on_fill F req field key []) k =
     (if k = key
      then (case map_of req field of
              None \<Rightarrow> None
            | Some v \<Rightarrow> if py_bool F v then Some (JObj [(''price'', JStr (py_str F v))]) else None)
      else None)"
  by (simp add: on_fill_def split: option.split)

lemma market_calls:
  assumes "map_of req ''instrument'' = Some i" "map_of req ''units'' = Some u"
  shows "broker_calls E (POST_order_market req) =
     [OrderCreate (OANDA_ACCOUNT_ID E)
        [(''order'', JObj ([(''type'', JStr ''MARKET''), (''instrument'', i),
                            (''units'', JStr (py_str (floats E) u))]
              @ on_fill (floats E) req ''stop_loss'' ''stopLossOnFill'' []
              @ on_fill (floats E) req ''take_profit'' ''takeProfitOnFill'' []))]]"
proof -
  have "fst (place_market_order_try E req) =
     [OrderCreate (OANDA_ACCOUNT_ID E)
        [(''order'', JObj (on_fill (floats E) req ''take_profit'' ''takeProfitOnFill''
            (on_fill (floats E) req ''stop_loss'' ''stopLossOnFill''
              [(''type'', JStr ''MARKET''), (''instrument'', i),
               (''units'', JStr (py_str (floats E) u))])))]]"
    using assms by (simp add: place_market_order_try_def fst_request Let_def)
  also have "on_fill (floats E) req ''take_profit'' ''takeProfitOnFill''
            (on_fill (floats E) req ''stop_loss'' ''stopLossOnFill''
              [(''type'', JStr ''MARKET''), (''instrument'', i),
               (''units'', JStr (py_str (floats E) u))])
      = [(''type'', JStr ''MARKET''), (''instrument'', i),
               (''units'', JStr (py_str (floats E) u))]
              @ on_fill (floats E) req ''stop_loss'' ''stopLossOnFill'' []
              @ on_fill (floats E) req ''take_profit'' ''takeProfitOnFill'' []"
    by (subst on_fill_append, subst on_fill_append [where field = "''stop_loss''"]) simp
  finally show ?thesis
    by (simp add: broker_calls_def place_market_order_def fst_try_except)
qed

lemma limit_calls:
  assumes "map_of req ''instrument'' = Some i" "map_of req ''units'' = Some u"
    "map_of req ''price'' = Some p"
  shows "broker_calls E (POST_order_limit req) =
     [OrderCreate (OANDA_ACCOUNT_ID E)
        [(''order'', JObj ([(''type'', JStr ''LIMIT''), (''instrument'', i),
                            (''units'', JStr (py_str (floats E) u)),
                            (''price'', JStr (py_str (floats E) p))]
              @ on_fill (floats E) req ''stop_loss'' ''stopLossOnFill'' []
              @ on_fill (floats E) req ''take_profit'' ''takeProfitOnFill'' []))]]"
proof -
  have "fst (place_limit_order_try E req) =
     [OrderCreate (OANDA_ACCOUNT_ID E)
        [(''order'', JObj (on_fill (floats E) req ''take_profit'' ''takeProfitOnFill''
            (on_fill (floats E) req ''stop_loss'' ''stopLossOnFill''
              [(''type'', JStr ''LIMIT''), (''instrument'', i),
               (''units'', JStr (py_str (floats E) u)),
               (''price'', JStr (py_str (floats E) p))])))]]"
    using assms by (simp add: place_limit_order_try_def fst_request Let_def)
  also have "on_fill (floats E) req ''take_profit'' ''takeProfitOnFill''
            (on_fill (floats E) req ''stop_loss'' ''stopLossOnFill''
              [(''type'', JStr ''LIMIT''), (''instrument'', i),
               (''units'', JStr (py_str (floats E) u)),
               (''price'', JStr (py_str (floats E) p))])
      = [(''type'', JStr ''LIMIT''), (''instrument'', i),
               (''units'', JStr (py_str (floats E) u)),
               (''price'', JStr (py_str (floats E) p))]
              @ on_fill (floats E) req ''stop_loss'' ''stopLossOnFill'' []
              @ on_fill (floats E) req ''take_profit'' ''takeProfitOnFill'' []"
    by (subst on_fill_append, subst on_fill_append [where field = "''stop_loss''"]) simp
  finally show ?thesis
    by (simp add: broker_calls_def place_limit_order_def fst_try_except)
qed

text \<open>
  C8. For a market or limit order whose required fields are present, one \<^verbatim>\<open>OrderCreate\<close>
  request is sent, and in its \<^verbatim>\<open>order\<close> the key \<^verbatim>\<open>stopLossOnFill\<close> (resp.
  \<^verbatim>\<open>takeProfitOnFill\<close>) is absent when \<^verbatim>\<open>stop_loss\<close> (resp. \<^verbatim>\<open>take_profit\<close>) is absent from the
  input or falsy, and is \<^verbatim>\<open>{"price": str(value)}\<close> when it is present and truthy.
\<close>

theorem optional_on_fill_fields:
  "(map_of req ''instrument'' \<noteq> None \<and> map_of req ''units'' \<noteq> None \<longrightarrow>
      (\<exists>order.
         broker_calls E (POST_order_market req) =
           [OrderCreate (OANDA_ACCOUNT_ID E) [(''order'', JObj order)]]
         \<and> map_of order ''stopLossOnFill'' =
             (case map_of req ''stop_loss'' of
                None \<Rightarrow> None
              | Some v \<Rightarrow> if py_bool (floats E) v
                          then Some (JObj [(''price'', JStr (py_str (floats E) v))]) else None)
         \<and> map_of order ''takeProfitOnFill'' =
             (case map_of req ''take_profit'' of
                None \<Rightarrow> None
              | Some v \<Rightarrow> if py_bool (floats E) v
                          then Some (JObj [(''price'', JStr (py_str (floats E) v))]) else None)))
   \<and> (map_of req ''instrument'' \<noteq> None \<and> map_of req ''units'' \<noteq> None
        \<and> map_of req ''price'' \<noteq> None \<longrightarrow>
      (\<exists>order.
         broker_calls E (POST_order_limit req) =
           [OrderCreate (OANDA_ACCOUNT_ID E) [(''order'', JObj order)]]
         \<and> map_of order ''stopLossOnFill'' =
             (case map_of req ''stop_loss'' of
                None \<Rightarrow> None
              | Some v \<Rightarrow> if py_bool (floats E) v
                          then Some (JObj [(''price'', JStr (py_str (floats E) v))]) else None)
         \<and> map_of order ''takeProfitOnFill'' =
             (case map_of req ''take_profit'' of
                None \<Rightarrow> None
              | Some v \<Rightarrow> if py_bool (floats E) v
                          then Some (JObj [(''price'', JStr (py_str (floats E) v))]) else None)))"
proof (intro conjI impI)
  assume "map_of req ''instrument'' \<noteq> None \<and> map_of req ''units'' \<noteq> None"
  then obtain i u where "map_of req ''instrument'' = Some i" "map_of req ''units'' = Some u"
    by auto
  from market_calls [OF this, of E]
  show "\<exists>order.
         broker_calls E (POST_order_market req) =
           [OrderCreate (OANDA_ACCOUNT_ID E) [(''order'', JObj order)]]
         \<and> map_of order ''stopLossOnFill'' =
             (case map_of req ''stop_loss'' of
                None \<Rightarrow> None
              | Some v \<Rightarrow> if py_bool (floats E) v
                          then Some (JObj [(''price'', JStr (py_str (floats E) v))]) else None)
         \<and> map_of order ''takeProfitOnFill'' =
             (case map_of req ''take_profit'' of
                None \<Rightarrow> None
              | Some v \<Rightarrow> if py_bool (floats E) v
                          then Some (JObj [(''price'', JStr (py_str (floats E) v))]) else None)"
    by (simp add: map_add_def map_of_on_fill_empty split: option.split)
next
  assume "map_of req ''instrument'' \<noteq> None \<and> map_of req ''units'' \<noteq> None
        \<and> map_of req ''price'' \<noteq> None"
  then obtain i u p where "map_of req ''instrument'' = Some i" "map_of req ''units'' = Some u"
    "map_of req ''price'' = Some p"
    by auto
  from limit_calls [OF this, of E]
  show "\<exists>order.
         broker_calls E (POST_order_limit req) =
           [OrderCreate (OANDA_ACCOUNT_ID E) [(''order'', JObj order)]]
         \<and> map_of order ''stopLossOnFill'' =
             (case map_of req ''stop_loss'' of
                None \<Rightarrow> None
              | Some v \<Rightarrow> if py_bool (floats E) v
                          then Some (JObj [(''price'', JStr (py_str (floats E) v))]) else None)
         \<and> map_of order ''takeProfitOnFill'' =
             (case map_of req ''take_profit'' of
                None \<Rightarrow> None
              | Some v \<Rightarrow> if py_bool (floats E) v
                          then Some (JObj [(''price'', JStr (py_str (floats E) v))]) else None)"
    by (simp add: map_add_def map_of_on_fill_empty split: option.split)
qed

text \<open>
  A market order with a stop loss and a null take profit; a limit order with a take
  profit only.
\<close>

theorem optional_on_fill_fields_witness:
  "(\<exists>order.
      broker_calls (sample_env (Inr (JObj [])))
        (POST_order_market [(''instrument'', JStr ''EUR_USD''), (''units'', JInt 100),
                            (''stop_loss'', JStr ''1.0950''), (''take_profit'', JNull)]) =
        [OrderCreate ''101-001-1234567-001'' [(''order'', JObj order)]]
      \<and> map_of order ''stopLossOnFill'' = Some (JObj [(''price'', JStr ''1.0950'')])
      \<and> map_of order ''takeProfitOnFill'' = None)
   \<and> (\<exists>order.
      broker_calls (sample_env (Inr (JObj [])))
        (POST_order_limit [(''instrument'', JStr ''EUR_USD''), (''units'', JInt 100),
                           (''price'', JStr ''1.1000''), (''take_profit'', JStr ''1.1050'')]) =
        [OrderCreate ''101-001-1234567-001'' [(''order'', JObj order)]]
      \<and> map_of order ''stopLossOnFill'' = None
      \<and> map_of order ''takeProfitOnFill'' = Some (JObj [(''price'', JStr ''1.1050'')]))"
  using optional_on_fill_fields
          [of "[(''instrument'', JStr ''EUR_USD''), (''units'', JInt 100),
                (''stop_loss'', JStr ''1.0950''), (''take_profit'', JNull)]"
              "sample_env (Inr (JObj []))"]
        optional_on_fill_fields
          [of "[(''instrument'', JStr ''EUR_USD''), (''units'', JInt 100),
                (''price'', JStr ''1.1000''), (''take_profit'', JStr ''1.1050'')]"
              "sample_env (Inr (JObj []))"]
  by (simp add: sample_env_def py_str_def)

text \<open>
  C10. For a market order with \<^verbatim>\<open>instrument\<close> and \<^verbatim>\<open>units\<close> present, and a limit order with
  \<^verbatim>\<open>price\<close> present too, whatever their JSON values, the payload starts with the fixed
  \<^verbatim>\<open>type\<close> (\<^verbatim>\<open>"MARKET"\<close>, \<^verbatim>\<open>"LIMIT"\<close>), the instrument as given, and \<^verbatim>\<open>units\<close> (and \<^verbatim>\<open>price\<close>)
  as the string \<^verbatim>\<open>str\<close> makes of them, followed only by the optional on-fill entries.
  \<^verbatim>\<open>str\<close> of an integer is its decimal text, of a float its \<^verbatim>\<open>repr\<close>, of a string the string.
\<close>

theorem order_fields_coerced_to_str:
  "(map_of req ''instrument'' = Some i \<and> map_of req ''units'' = Some u \<longrightarrow>
      broker_calls E (POST_order_market req) =
        [OrderCreate (OANDA_ACCOUNT_ID E)
           [(''order'', JObj ([(''type'', JStr ''MARKET''), (''instrument'', i),
                               (''units'', JStr (py_str (floats E) u))]
                 @ on_fill (floats E) req ''stop_loss'' ''stopLossOnFill'' []
                 @ on_fill (floats E) req ''take_profit'' ''takeProfitOnFill'' []))]])
   \<and> (map_of req ''instrument'' = Some i \<and> map_of req ''units'' = Some u
        \<and> map_of req ''price'' = Some p \<longrightarrow>
      broker_calls E (POST_order_limit req) =
        [OrderCreate (OANDA_ACCOUNT_ID E)
           [(''order'', JObj ([(''type'', JStr ''LIMIT''), (''instrument'', i),
                               (''units'', JStr (py_str (floats E) u)),
                               (''price'', JStr (py_str (floats E) p))]
                 @ on_fill (floats E) req ''stop_loss'' ''stopLossOnFill'' []
                 @ on_fill (floats E) req ''take_profit'' ''takeProfitOnFill'' []))]])
   \<and> py_str (floats E) (JInt n) = str_int n
   \<and> py_str (floats E) (JFloat x) = float_repr (floats E) x
   \<and> py_str (floats E) (JStr s) = s"
  using market_calls [of req i u E] limit_calls [of req i u p E]
  by (simp add: py_str_def)

text \<open>Integer \<^verbatim>\<open>units\<close> of 500 are sent as the string \<^verbatim>\<open>"500"\<close>.\<close>

theorem order_fields_coerced_to_str_witness:
  "broker_calls (sample_env (Inr (JObj [])))
     (POST_order_market [(''instrument'', JStr ''EUR_USD''), (''units'', JInt 500)]) =
     [OrderCreate ''101-001-1234567-001''
        [(''order'', JObj [(''type'', JStr ''MARKET''), (''instrument'', JStr ''EUR_USD''),
                           (''units'', JStr ''500'')])]]
   \<and> broker_calls (sample_env (Inr (JObj [])))
     (POST_order_limit [(''instrument'', JStr ''EUR_USD''), (''units'', JInt 500),
                        (''price'', JStr ''1.1000'')]) =
     [OrderCreate ''101-001-1234567-001''
        [(''order'', JObj [(''type'', JStr ''LIMIT''), (''instrument'', JStr ''EUR_USD''),
                           (''units'', JStr ''500''), (''price'', JStr ''1.1000'')])]]"
  using order_fields_coerced_to_str
          [of "[(''instrument'', JStr ''EUR_USD''), (''units'', JInt 500)]"
              "JStr ''EUR_USD''" "JInt 500" "sample_env (Inr (JObj []))" JNull 500]
        order_fields_coerced_to_str
          [of "[(''instrument'', JStr ''EUR_USD''), (''units'', JInt 500),
                (''price'', JStr ''1.1000'')]"
              "JStr ''EUR_USD''" "JInt 500" "sample_env (Inr (JObj []))" "JStr ''1.1000''" 500]
        str_int_500
  by (simp add: sample_env_def on_fill_def)

subsection \<open>Failures\<close>

lemma handler_guarded: "guarded req \<Longrightarrow> handler E req = try_except (try_block E req)"
  by (cases req)
     (simp_all add: get_account_info_def get_positions_def get_orders_def get_current_price_def
        get_historical_data_def place_market_order_def place_limit_order_def cancel_order_def
        close_position_def)

lemma market_shape:
  "fst (place_market_order_try E req) = []
   \<or> (\<exists>r k. place_market_order_try E req = request E r k)"
  by (auto simp: place_market_order_try_def fst_raise Let_def split: option.split sum.split)

lemma limit_shape:
  "fst (place_limit_order_try E req) = []
   \<or> (\<exists>r k. place_limit_order_try E req = request E r k)"
  by (auto simp: place_limit_order_try_def fst_raise Let_def split: option.split sum.split)

lemma close_shape:
  "fst (close_position_try E instrument units) = []
   \<or> (\<exists>r k. close_position_try E instrument units = request E r k)"
  by (auto simp: close_position_try_def fst_raise split: sum.split)

lemma try_block_shape:
  "fst (try_block E req) = [] \<or> (\<exists>r k. try_block E req = request E r k)"
proof (cases req)
  case GET_root
  then show ?thesis by (simp add: root_def)
next
  case GET_health
  then show ?thesis by (auto simp: health_check_try_def)
next
  case GET_account
  then show ?thesis by (auto simp: get_account_info_try_def)
next
  case GET_positions
  then show ?thesis by (auto simp: get_positions_try_def)
next
  case GET_orders
  then show ?thesis by (auto simp: get_orders_try_def)
next
  case (GET_price x6)
  then show ?thesis by (auto simp: get_current_price_try_def)
next
  case (GET_historical x71 x72 x73)
  then show ?thesis by (auto simp: get_historical_data_try_def)
next
  case (POST_order_market x8)
  then show ?thesis using market_shape by simp
next
  case (POST_order_limit x9)
  then show ?thesis using limit_shape by simp
next
  case (DELETE_order x10)
  then show ?thesis by (auto simp: cancel_order_try_def)
next
  case (POST_position_close x111 x112)
  then show ?thesis using close_shape by simp
qed

lemma broker_exception_propagates:
  assumes "fst (try_block E req) = [r]" "oanda_client E r = Inl e"
  shows "snd (try_block E req) = Inl e"
proof -
  from try_block_shape [of E req] assms(1)
  obtain r' k where eq: "try_block E req = request E r' k" by auto
  with assms(1) have "r' = r" by (simp add: fst_request)
  with eq assms(2) show ?thesis by (simp add: snd_request bind_exn_def)
qed

lemma app_guarded:
  assumes "guarded req"
  shows "app E req =
     (case snd (try_block E req) of
        Inr v \<Rightarrow>
          if json_compliant v then \<lparr>status_code = 200, content = v\<rparr>
          else global_exception_handler render_error
      | Inl e \<Rightarrow>
          if is_V20Error e
          then \<lparr>status_code = 400, content = detail (''Oanda API error: '' @ str_exn e)\<rparr>
          else \<lparr>status_code = 500, content = detail (''Internal error: '' @ str_exn e)\<rparr>)"
  using handler_guarded [OF assms, of E]
  by (simp add: app_def snd_try_except respond_except split: sum.split)

lemma calls_guarded: "guarded req \<Longrightarrow> broker_calls E req = fst (try_block E req)"
  by (simp add: broker_calls_def handler_guarded fst_try_except)

text \<open>
  The handler registered for \<^verbatim>\<open>Exception\<close> answers 500 for whatever is not an
  \<^verbatim>\<open>HTTPException\<close>; what it answers when a returned body cannot be rendered.
\<close>

lemma fallback_is_500:
  "respond (Inl (V20Error code msg)) = global_exception_handler (V20Error code msg)"
  "respond (Inl (PyError cls msg)) = global_exception_handler (PyError cls msg)"
  "status_code (global_exception_handler exc) = 500"
  by (simp_all add: global_exception_handler_def)

lemma render_failure:
  "global_exception_handler render_error =
     \<lparr>status_code = 500,
      content = JObj [(''success'', JBool False),
                      (''error'', JStr ''Internal server error''),
                      (''detail'', JStr ''Out of range float values are not JSON compliant'')]\<rparr>"
  by (simp add: global_exception_handler_def render_error_def)

text \<open>
  C2 as stated (every endpoint that calls the broker turns a \<^verbatim>\<open>V20Error\<close> into HTTP 400)
  fails at \<^verbatim>\<open>GET /health\<close>: it calls the broker, and when the broker raises a \<^verbatim>\<open>V20Error\<close> it
  answers 200.
\<close>

theorem health_swallows_broker_error_counterexample:
  "broker_calls (sample_env (Inl (V20Error 401 ''Insufficient authorization''))) GET_health
     = [AccountDetails ''101-001-1234567-001'']
   \<and> oanda_client (sample_env (Inl (V20Error 401 ''Insufficient authorization'')))
       (AccountDetails ''101-001-1234567-001'') = Inl (V20Error 401 ''Insufficient authorization'')
   \<and> status_code (app (sample_env (Inl (V20Error 401 ''Insufficient authorization''))) GET_health)
       = 200
   \<and> status_code (app (sample_env (Inl (V20Error 401 ''Insufficient authorization''))) GET_health)
       \<noteq> 400"
  by (simp add: broker_calls_def app_def health_check_def health_check_try_def request_def
        bind_exn_def sample_env_def Let_def)

text \<open>
  C2, amended. For every endpoint that calls the broker other than \<^verbatim>\<open>GET /health\<close>: when the
  broker call raises a \<^verbatim>\<open>V20Error\<close> the response is HTTP 400 whose detail is
  \<^verbatim>\<open>"Oanda API error: "\<close> followed by the broker's message; when the broker call, or anything
  else in the handler's \<^verbatim>\<open>try\<close> block, raises another exception the response is HTTP 500
  whose detail is \<^verbatim>\<open>"Internal error: "\<close> followed by its text. When the handler returns a
  value that can be rendered the response is 200 with that value; when the value holds a
  NaN or an infinity the rendering raises outside the handler, and the handler registered
  for \<^verbatim>\<open>Exception\<close> answers HTTP 500 with its own body. The handler itself only ever returns
  or raises an \<^verbatim>\<open>HTTPException\<close> with status 400 or 500, and the status of the response is
  always 200, 400 or 500: nothing reaches the caller unhandled.
\<close>

theorem failures_become_400_or_500:
  "guarded req \<longrightarrow>
     (\<forall>r code msg.
        broker_calls E req = [r] \<and> oanda_client E r = Inl (V20Error code msg) \<longrightarrow>
        app E req =
          \<lparr>status_code = 400, content = detail (''Oanda API error: '' @ msg)\<rparr>)
   \<and> (\<forall>r e.
        broker_calls E req = [r] \<and> oanda_client E r = Inl e \<and> \<not> is_V20Error e \<longrightarrow>
        app E req =
          \<lparr>status_code = 500, content = detail (''Internal error: '' @ str_exn e)\<rparr>)
   \<and> (\<forall>e.
        snd (try_block E req) = Inl e \<and> \<not> is_V20Error e \<longrightarrow>
        app E req =
          \<lparr>status_code = 500, content = detail (''Internal error: '' @ str_exn e)\<rparr>)
   \<and> (\<forall>v. snd (try_block E req) = Inr v \<and> json_compliant v \<longrightarrow>
        app E req = \<lparr>status_code = 200, content = v\<rparr>)
   \<and> (\<forall>v. snd (try_block E req) = Inr v \<and> \<not> json_compliant v \<longrightarrow>
        app E req =
          \<lparr>status_code = 500,
           content = JObj [(''success'', JBool False),
                           (''error'', JStr ''Internal server error''),
                           (''detail'', JStr ''Out of range float values are not JSON compliant'')]\<rparr>)
   \<and> ((\<exists>v. snd (handler E req) = Inr v)
        \<or> (\<exists>d. snd (handler E req) = Inl (HTTPException 400 d))
        \<or> (\<exists>d. snd (handler E req) = Inl (HTTPException 500 d)))
   \<and> (status_code (app E req) = 200 \<or> status_code (app E req) = 400
        \<or> status_code (app E req) = 500)"
proof (intro impI conjI allI)
  fix r code msg
  assume g: "guarded req"
    and "broker_calls E req = [r] \<and> oanda_client E r = Inl (V20Error code msg)"
  then have "snd (try_block E req) = Inl (V20Error code msg)"
    using broker_exception_propagates [of E req r] by (simp add: calls_guarded)
  then show "app E req =
          \<lparr>status_code = 400, content = detail (''Oanda API error: '' @ msg)\<rparr>"
    by (simp add: app_guarded [OF g])
next
  fix r e
  assume g: "guarded req"
    and a: "broker_calls E req = [r] \<and> oanda_client E r = Inl e \<and> \<not> is_V20Error e"
  then have "snd (try_block E req) = Inl e"
    using broker_exception_propagates [of E req r] by (simp add: calls_guarded)
  with a show "app E req =
          \<lparr>status_code = 500, content = detail (''Internal error: '' @ str_exn e)\<rparr>"
    by (simp add: app_guarded [OF g])
next
  fix e
  assume g: "guarded req" and "snd (try_block E req) = Inl e \<and> \<not> is_V20Error e"
  then show "app E req =
          \<lparr>status_code = 500, content = detail (''Internal error: '' @ str_exn e)\<rparr>"
    by (simp add: app_guarded [OF g])
next
  fix v
  assume g: "guarded req" and "snd (try_block E req) = Inr v \<and> json_compliant v"
  then show "app E req = \<lparr>status_code = 200, content = v\<rparr>"
    by (simp add: app_guarded [OF g])
next
  fix v
  assume g: "guarded req" and "snd (try_block E req) = Inr v \<and> \<not> json_compliant v"
  then show "app E req =
          \<lparr>status_code = 500,
           content = JObj [(''success'', JBool False),
                           (''error'', JStr ''Internal server error''),
                           (''detail'', JStr ''Out of range float values are not JSON compliant'')]\<rparr>"
    by (simp add: app_guarded [OF g] render_failure)
next
  assume g: "guarded req"
  show "(\<exists>v. snd (handler E req) = Inr v)
        \<or> (\<exists>d. snd (handler E req) = Inl (HTTPException 400 d))
        \<or> (\<exists>d. snd (handler E req) = Inl (HTTPException 500 d))"
  proof (cases "snd (try_block E req)")
    case (Inl e)
    then show ?thesis
      by (cases e) (simp_all add: handler_guarded [OF g] snd_try_except)
  next
    case (Inr v)
    then show ?thesis by (simp add: handler_guarded [OF g] snd_try_except)
  qed
next
  assume g: "guarded req"
  show "status_code (app E req) = 200 \<or> status_code (app E req) = 400
        \<or> status_code (app E req) = 500"
    by (simp add: app_guarded [OF g] render_failure split: sum.split)
qed

text \<open>
  A broker error on the account; a refused connection, a success and a broker answer
  holding a NaN on a cancellation.
\<close>

theorem failures_become_400_or_500_witness:
  "app (sample_env (Inl (V20Error 401 ''Insufficient authorization''))) GET_account =
     \<lparr>status_code = 400, content = detail ''Oanda API error: Insufficient authorization''\<rparr>
   \<and> app (sample_env (Inl (PyError ''ConnectionError'' ''Connection refused''))) (DELETE_order ''42'') =
     \<lparr>status_code = 500, content = detail ''Internal error: Connection refused''\<rparr>
   \<and> app (sample_env (Inr (JObj [(''orderCancelTransaction'', JObj [])]))) (DELETE_order ''42'') =
     \<lparr>status_code = 200,
      content = JObj [(''success'', JBool True),
                      (''data'', JObj [(''orderCancelTransaction'', JObj [])])]\<rparr>
   \<and> app (sample_env (Inr (JObj [(''price'', JFloat PyNaN)]))) (DELETE_order ''42'') =
     \<lparr>status_code = 500,
      content = JObj [(''success'', JBool False),
                      (''error'', JStr ''Internal server error''),
                      (''detail'', JStr ''Out of range float values are not JSON compliant'')]\<rparr>"
proof -
  let ?E1 = "sample_env (Inl (V20Error 401 ''Insufficient authorization''))"
  let ?E2 = "sample_env (Inl (PyError ''ConnectionError'' ''Connection refused''))"
  let ?E3 = "sample_env (Inr (JObj [(''orderCancelTransaction'', JObj [])]))"
  let ?E4 = "sample_env (Inr (JObj [(''price'', JFloat PyNaN)]))"
  have c1: "broker_calls ?E1 GET_account = [AccountDetails ''101-001-1234567-001'']"
    by (simp add: broker_calls_def get_account_info_def get_account_info_try_def fst_try_except
          fst_request sample_env_def)
  have c2: "broker_calls ?E2 (DELETE_order ''42'') = [OrderCancel ''101-001-1234567-001'' ''42'']"
    by (simp add: broker_calls_def cancel_order_def cancel_order_try_def fst_try_except
          fst_request sample_env_def)
  have c3: "snd (try_block ?E3 (DELETE_order ''42'')) =
      Inr (JObj [(''success'', JBool True),
                 (''data'', JObj [(''orderCancelTransaction'', JObj [])])])"
    by (simp add: cancel_order_try_def snd_request bind_exn_def success_def sample_env_def)
  have c4: "snd (try_block ?E4 (DELETE_order ''42'')) =
      Inr (JObj [(''success'', JBool True), (''data'', JObj [(''price'', JFloat PyNaN)])])"
    by (simp add: cancel_order_try_def snd_request bind_exn_def success_def sample_env_def)
  show ?thesis
    using failures_become_400_or_500 [of GET_account ?E1]
          failures_become_400_or_500 [of "DELETE_order ''42''" ?E2]
          failures_become_400_or_500 [of "DELETE_order ''42''" ?E3]
          failures_become_400_or_500 [of "DELETE_order ''42''" ?E4]
          c1 c2 c3 c4
    by (simp add: sample_env_def)
qed

subsection \<open>The spread\<close>

lemma bind_exn_Inr: "bind_exn x f = Inr y \<longleftrightarrow> (\<exists>v. x = Inr v \<and> f v = Inr y)"
  by (cases x) (simp_all add: bind_exn_def)

lemma price_200:
  assumes "status_code (app E (GET_price instrument)) = 200"
  shows "\<exists>body. snd (get_current_price_try E instrument) = Inr body
           \<and> content (app E (GET_price instrument)) = body"
proof (cases "snd (get_current_price_try E instrument)")
  case (Inl e)
  with assms show ?thesis
    using app_guarded [of "GET_price instrument" E] by (simp split: if_splits)
next
  case (Inr v)
  with assms show ?thesis
    using app_guarded [of "GET_price instrument" E]
    by (simp add: render_failure split: if_splits)
qed

lemma price_body:
  assumes "snd (get_current_price_try E instrument) = Inr body"
  shows "\<exists>response prices price_data ask bid a b.
       oanda_client E (PricingInfo (OANDA_ACCOUNT_ID E) [(''instruments'', JStr instrument)])
         = Inr response
     \<and> py_get response ''prices'' (JList []) = Inr prices
     \<and> py_index0 prices = Inr price_data
     \<and> first_price price_data ''asks'' (JInt 0) = Inr ask
     \<and> first_price price_data ''bids'' (JInt 0) = Inr bid
     \<and> py_float (floats E) ask = Inr a
     \<and> py_float (floats E) bid = Inr b
     \<and> bind_exn (py_getitem body ''data'') (\<lambda>d. py_getitem d ''spread'')
         = Inr (JFloat (float_sub (floats E) a b))"
  using assms
  by (auto simp: get_current_price_try_def snd_request bind_exn_Inr success_def
           split: if_splits)

lemma spread_bound:
  fixes A B C :: real
  assumes "\<bar>A - 11002 / 10000\<bar> \<le> \<bar>11002 / 10000\<bar> / 2 ^ 53"
    and "\<bar>B - 11000 / 10000\<bar> \<le> \<bar>11000 / 10000\<bar> / 2 ^ 53"
    and "\<bar>C - (A - B)\<bar> \<le> \<bar>A - B\<bar> / 2 ^ 53"
  shows "\<bar>C - 2 / 10000\<bar> \<le> 1 / 10 ^ 15"
  using assms by (simp add: abs_le_iff) argo


lemma price_spread:
  assumes "oanda_client E (PricingInfo (OANDA_ACCOUNT_ID E) [(''instruments'', JStr instrument)])
             = Inr (quote bid ask t)"
    and "json_compliant t"
    and "float_of_str (floats E) ask = Some a"
    and "float_of_str (floats E) bid = Some b"
    and "float_finite (float_sub (floats E) a b)"
  shows "app E (GET_price instrument) =
     \<lparr>status_code = 200,
      content = JObj [(''success'', JBool True),
                      (''data'', JObj [(''instrument'', JStr instrument),
                                       (''bid'', JStr bid),
                                       (''ask'', JStr ask),
                                       (''spread'', JFloat (float_sub (floats E) a b)),
                                       (''time'', t)])]\<rparr>"
  using assms
  by (simp add: app_def get_current_price_def get_current_price_try_def snd_try_except
        snd_request bind_exn_def first_price_def success_def quote_def)

text \<open>The binary64 values of the sample quote are within the rounding error, the third exactly.\<close>

lemma quote_floats_rounds:
  "rounds (11002 / 10000) (PyFloat False 1238715077508255 (- 50))"
  "rounds (11000 / 10000) (PyFloat False 2476979795053773 (- 51))"
  "rounds (float_val (PyFloat False 1238715077508255 (- 50))
           - float_val (PyFloat False 2476979795053773 (- 51)))
     (PyFloat False 450359962737 (- 51))"
  by (simp_all add: rounds_def)

text \<open>
  C9. Whenever \<^verbatim>\<open>GET /price/{instrument}\<close> answers 200, the \<^verbatim>\<open>spread\<close> of the body is the
  float subtraction \<^verbatim>\<open>float(ask) - float(bid)\<close> of the first ask price and the first bid
  price of the first price row of the broker's answer. For the bid \<^verbatim>\<open>"1.1000"\<close> and the ask
  \<^verbatim>\<open>"1.1002"\<close>, when \<^verbatim>\<open>float\<close> of the two strings and the subtraction of the two floats are
  within the binary64 rounding error of the exact results, the response is 200 and the
  spread is within \<open>10\<^sup>-\<^sup>1\<^sup>5\<close> of 0.0002. No more is promised: the instance below is the
  binary64 result, and it is not 0.0002.
\<close>

theorem spread_is_float_subtraction:
  "(status_code (app E (GET_price instrument)) = 200 \<longrightarrow>
      (\<exists>response prices price_data ask bid a b.
         oanda_client E (PricingInfo (OANDA_ACCOUNT_ID E) [(''instruments'', JStr instrument)])
           = Inr response
       \<and> py_get response ''prices'' (JList []) = Inr prices
       \<and> py_index0 prices = Inr price_data
       \<and> first_price price_data ''asks'' (JInt 0) = Inr ask
       \<and> first_price price_data ''bids'' (JInt 0) = Inr bid
       \<and> py_float (floats E) ask = Inr a
       \<and> py_float (floats E) bid = Inr b
       \<and> bind_exn (py_getitem (content (app E (GET_price instrument))) ''data'')
            (\<lambda>d. py_getitem d ''spread'')
           = Inr (JFloat (float_sub (floats E) a b))))
   \<and> (oanda_client E (PricingInfo (OANDA_ACCOUNT_ID E) [(''instruments'', JStr instrument)])
         = Inr (quote ''1.1000'' ''1.1002'' t)
       \<and> json_compliant t
       \<and> float_of_str (floats E) ''1.1002'' = Some x \<and> rounds (11002 / 10000) x
       \<and> float_of_str (floats E) ''1.1000'' = Some y \<and> rounds (11000 / 10000) y
       \<and> rounds (float_val x - float_val y) (float_sub (floats E) x y) \<longrightarrow>
      app E (GET_price instrument) =
        \<lparr>status_code = 200,
         content = JObj [(''success'', JBool True),
                         (''data'', JObj [(''instrument'', JStr instrument),
                                          (''bid'', JStr ''1.1000''),
                                          (''ask'', JStr ''1.1002''),
                                          (''spread'', JFloat (float_sub (floats E) x y)),
                                          (''time'', t)])]\<rparr>
      \<and> \<bar>float_val (float_sub (floats E) x y) - 2 / 10000\<bar> \<le> 1 / 10 ^ 15)"
proof (intro conjI impI)
  assume "status_code (app E (GET_price instrument)) = 200"
  from price_200 [OF this] obtain body
    where "snd (get_current_price_try E instrument) = Inr body"
      and "content (app E (GET_price instrument)) = body" by blast
  with price_body [of E instrument body]
  show "\<exists>response prices price_data ask bid a b.
         oanda_client E (PricingInfo (OANDA_ACCOUNT_ID E) [(''instruments'', JStr instrument)])
           = Inr response
       \<and> py_get response ''prices'' (JList []) = Inr prices
       \<and> py_index0 prices = Inr price_data
       \<and> first_price price_data ''asks'' (JInt 0) = Inr ask
       \<and> first_price price_data ''bids'' (JInt 0) = Inr bid
       \<and> py_float (floats E) ask = Inr a
       \<and> py_float (floats E) bid = Inr b
       \<and> bind_exn (py_getitem (content (app E (GET_price instrument))) ''data'')
            (\<lambda>d. py_getitem d ''spread'')
           = Inr (JFloat (float_sub (floats E) a b))"
    by simp
next
  assume h: "oanda_client E (PricingInfo (OANDA_ACCOUNT_ID E) [(''instruments'', JStr instrument)])
         = Inr (quote ''1.1000'' ''1.1002'' t)
       \<and> json_compliant t
       \<and> float_of_str (floats E) ''1.1002'' = Some x \<and> rounds (11002 / 10000) x
       \<and> float_of_str (floats E) ''1.1000'' = Some y \<and> rounds (11000 / 10000) y
       \<and> rounds (float_val x - float_val y) (float_sub (floats E) x y)"
  then have "float_finite (float_sub (floats E) x y)"
    by (simp add: rounds_def)
  with h show "app E (GET_price instrument) =
        \<lparr>status_code = 200,
         content = JObj [(''success'', JBool True),
                         (''data'', JObj [(''instrument'', JStr instrument),
                                          (''bid'', JStr ''1.1000''),
                                          (''ask'', JStr ''1.1002''),
                                          (''spread'', JFloat (float_sub (floats E) x y)),
                                          (''time'', t)])]\<rparr>"
    using price_spread [of E instrument "''1.1000''" "''1.1002''" t x y] by simp
  from h show "\<bar>float_val (float_sub (floats E) x y) - 2 / 10000\<bar> \<le> 1 / 10 ^ 15"
    using spread_bound [of "float_val x" "float_val y" "float_val (float_sub (floats E) x y)"]
    by (simp add: rounds_def)
qed

text \<open>
  The quote at the binary64 values: the spread is \<open>450359962737 / 2\<^sup>5\<^sup>1\<close>, within the
  tolerance of 0.0002 and different from it.
\<close>

theorem spread_is_float_subtraction_witness:
  "app quote_env (GET_price ''EUR_USD'') =
     \<lparr>status_code = 200,
      content = JObj [(''success'', JBool True),
                      (''data'', JObj [(''instrument'', JStr ''EUR_USD''),
                                       (''bid'', JStr ''1.1000''),
                                       (''ask'', JStr ''1.1002''),
                                       (''spread'', JFloat (PyFloat False 450359962737 (- 51))),
                                       (''time'', JStr ''2024-01-01T00:00:00.000000000Z'')])]\<rparr>
   \<and> \<bar>float_val (PyFloat False 450359962737 (- 51)) - 2 / 10000\<bar> \<le> 1 / 10 ^ 15
   \<and> float_val (PyFloat False 450359962737 (- 51)) \<noteq> 2 / 10000"
proof -
  have ne: "float_val (PyFloat False 450359962737 (- 51)) \<noteq> 2 / 10000"
    by simp
  show ?thesis
    using spread_is_float_subtraction
            [of quote_env "''EUR_USD''" "JStr ''2024-01-01T00:00:00.000000000Z''"
                "PyFloat False 1238715077508255 (- 50)" "PyFloat False 2476979795053773 (- 51)"]
          quote_floats_rounds ne
    by (simp add: quote_env_def quote_floats_def)
qed

end
